theory Spec2Isabelle
  imports Complex_Main "HOL-Library.Sublist"
begin

section \<open>Values of the serialized chart document\<close>

text \<open>
  The chart document is the JSON text that \<^verbatim>\<open>json.dumps(fig_json, cls=PlotlyJSONEncoder)\<close>
  writes into the page as \<^verbatim>\<open>const fig=...\<close>. Its values are JSON values; \<open>JUndefined\<close> is
  what reading a missing property gives in the browser. Numbers are rationals: every finite
  double is one. Objects are association lists in insertion order; a document written by
  \<^verbatim>\<open>json.dumps\<close> from a Python dict has no duplicate keys.
\<close>

datatype jsval =
    JUndefined
  | JNull
  | JBool bool
  | JNum rat
  | JStr string
  | JArr "jsval list"
  | JObj "(string \<times> jsval) list"

text \<open>\<^verbatim>\<open>Array.isArray(v)\<close>\<close>

fun isArray :: "jsval \<Rightarrow> bool" where
  "isArray (JArr xs) = True"
| "isArray v = False"

section \<open>The fragment of JavaScript the page script uses\<close>

text \<open>Truthiness: \<^verbatim>\<open>undefined\<close>, \<^verbatim>\<open>null\<close>, \<^verbatim>\<open>false\<close>, \<^verbatim>\<open>0\<close> and the empty string are falsy.\<close>

fun truthy :: "jsval \<Rightarrow> bool" where
  "truthy JUndefined = False"
| "truthy JNull = False"
| "truthy (JBool b) = b"
| "truthy (JNum q) = (q \<noteq> 0)"
| "truthy (JStr s) = (s \<noteq> [])"
| "truthy (JArr xs) = True"
| "truthy (JObj kvs) = True"

text \<open>\<^verbatim>\<open>a||b\<close> and \<^verbatim>\<open>a&&b\<close> return one of their operands.\<close>

definition js_or :: "jsval \<Rightarrow> jsval \<Rightarrow> jsval" where
  "js_or a b = (if truthy a then a else b)"

definition js_and :: "jsval \<Rightarrow> jsval \<Rightarrow> jsval" where
  "js_and a b = (if truthy a then b else a)"

text \<open>\<^verbatim>\<open>typeof v==='object'\<close> holds of objects, arrays and \<^verbatim>\<open>null\<close>.\<close>

fun is_object :: "jsval \<Rightarrow> bool" where
  "is_object JNull = True"
| "is_object (JArr xs) = True"
| "is_object (JObj kvs) = True"
| "is_object v = False"

text \<open>Decimal digits of a natural number, as \<^verbatim>\<open>String(i)\<close> prints an array index.\<close>

fun show_nat :: "nat \<Rightarrow> string" where
  "show_nat n = (if n < 10 then [''0123456789'' ! n]
                 else show_nat (n div 10) @ [''0123456789'' ! (n mod 10)])"

declare show_nat.simps [simp del]

definition show_int :: "int \<Rightarrow> string" where
  "show_int i = (if i < 0 then CHR ''-'' # show_nat (nat (- i)) else show_nat (nat i))"

text \<open>
  \<^verbatim>\<open>v.k\<close> and \<^verbatim>\<open>v[k]\<close> for a string key. An object gives its own property (the keys the
  script reads are not properties of \<^verbatim>\<open>Object.prototype\<close>); an array or a string gives its
  \<^verbatim>\<open>length\<close> and its elements under their decimal indices; anything else gives
  \<^verbatim>\<open>undefined\<close>. Reading a property of \<^verbatim>\<open>null\<close> or \<^verbatim>\<open>undefined\<close> throws in the browser; the
  script guards every such read with a truthiness test, so that case is never reached.
\<close>

fun js_prop :: "jsval \<Rightarrow> string \<Rightarrow> jsval" where
  "js_prop (JObj kvs) k = (case map_of kvs k of Some v \<Rightarrow> v | None \<Rightarrow> JUndefined)"
| "js_prop (JArr xs) k =
     (if k = ''length'' then JNum (of_nat (length xs))
      else case find (\<lambda>i. show_nat i = k) [0..<length xs] of
             Some i \<Rightarrow> xs ! i | None \<Rightarrow> JUndefined)"
| "js_prop (JStr s) k =
     (if k = ''length'' then JNum (of_nat (length s))
      else case find (\<lambda>i. show_nat i = k) [0..<length s] of
             Some i \<Rightarrow> JStr [s ! i] | None \<Rightarrow> JUndefined)"
| "js_prop v k = JUndefined"

text \<open>
  \<^verbatim>\<open>v[i]\<close> for a literal index \<open>i\<close>: the element of an array, the character of a string, the
  property of an object under the key \<^verbatim>\<open>String(i)\<close>; \<^verbatim>\<open>undefined\<close> out of range.
\<close>

fun js_at :: "jsval \<Rightarrow> nat \<Rightarrow> jsval" where
  "js_at (JArr xs) i = (if i < length xs then xs ! i else JUndefined)"
| "js_at (JStr s) i = (if i < length s then JStr [s ! i] else JUndefined)"
| "js_at (JObj kvs) i = js_prop (JObj kvs) (show_nat i)"
| "js_at v i = JUndefined"

text \<open>
  \<^verbatim>\<open>v.length\<close> where the script compares it with a number: the length of an array or string.
  For any other value the property is \<^verbatim>\<open>undefined\<close> (an object of the document carries no
  own \<^verbatim>\<open>length\<close> key), and every use below (\<^verbatim>\<open>===0\<close> after \<^verbatim>\<open>Array.isArray\<close>, \<^verbatim>\<open>||1\<close>,
  \<^verbatim>\<open>>1\<close>, \<^verbatim>\<open>idx<\<close>, \<^verbatim>\<open>&&\<close>) treats \<^verbatim>\<open>undefined\<close> as it treats 0.
\<close>

fun js_len :: "jsval \<Rightarrow> nat" where
  "js_len (JArr xs) = length xs"
| "js_len (JStr s) = length s"
| "js_len v = 0"

text \<open>\<^verbatim>\<open>o[k]=v\<close> on an object: an existing key keeps its place, a new key is appended.\<close>

fun assign :: "string \<Rightarrow> 'v \<Rightarrow> (string \<times> 'v) list \<Rightarrow> (string \<times> 'v) list" where
  "assign k v [] = [(k, v)]"
| "assign k v (p # ps) = (if fst p = k then (k, v) # ps else p # assign k v ps)"

fun js_set :: "jsval \<Rightarrow> string \<Rightarrow> jsval \<Rightarrow> jsval" where
  "js_set (JObj kvs) k v = JObj (assign k v kvs)"
| "js_set w k v = w"

text \<open>\<^verbatim>\<open>key in obj\<close>, for the four trace keys, on a value that passed \<^verbatim>\<open>typeof obj==='object'\<close>.\<close>

fun js_in :: "string \<Rightarrow> jsval \<Rightarrow> bool" where
  "js_in k (JObj kvs) = (k \<in> set (map fst kvs))"
| "js_in k v = False"

text \<open>
  \<^verbatim>\<open>String(v)\<close>. An integer below \<^verbatim>\<open>1e21\<close> prints in decimal. How a double that is not such
  an integer prints is floating-point formatting, which the parameter \<open>fmt\<close> stands for.
\<close>

fun join_comma :: "string list \<Rightarrow> string" where
  "join_comma [] = []"
| "join_comma [s] = s"
| "join_comma (s # t # ss) = s @ '','' @ join_comma (t # ss)"

fun js_String :: "(rat \<Rightarrow> string) \<Rightarrow> jsval \<Rightarrow> string" where
  "js_String fmt JUndefined = ''undefined''"
| "js_String fmt JNull = ''null''"
| "js_String fmt (JBool b) = (if b then ''true'' else ''false'')"
| "js_String fmt (JNum q) =
     (if of_int \<lfloor>q\<rfloor> = q \<and> \<bar>q\<bar> < 10 ^ 21 then show_int \<lfloor>q\<rfloor> else fmt q)"
| "js_String fmt (JStr s) = s"
| "js_String fmt (JArr xs) =
     join_comma (map (\<lambda>x. if x = JNull \<or> x = JUndefined then [] else js_String fmt x) xs)"
| "js_String fmt (JObj kvs) = ''[object Object]''"

text \<open>\<^verbatim>\<open>s.toLowerCase()\<close> on the ASCII letters; other bytes are left as they are.\<close>

definition lower_char :: "char \<Rightarrow> char" where
  "lower_char c = (let n = (of_char c :: nat) in if 65 \<le> n \<and> n \<le> 90 then char_of (n + 32) else c)"

definition js_toLowerCase :: "string \<Rightarrow> string" where
  "js_toLowerCase s = map lower_char s"

text \<open>
  The values a \<^verbatim>\<open>for(const x of v)\<close> loop visits: the elements of an array, the characters
  of a string. Any other value is not iterable and the loop throws a TypeError.
\<close>

datatype js_error = TypeError

fun iter :: "jsval \<Rightarrow> js_error + jsval list" where
  "iter (JArr xs) = Inr xs"
| "iter (JStr s) = Inr (map (\<lambda>c. JStr [c]) s)"
| "iter v = Inl TypeError"

text \<open>A loop body that may throw, run over a list: the first throw ends the loop.\<close>

fun for_each :: "('a \<Rightarrow> js_error + 'a) \<Rightarrow> 'a list \<Rightarrow> js_error + 'a list" where
  "for_each f [] = Inr []"
| "for_each f (x # xs) =
     (case f x of
        Inl e \<Rightarrow> Inl e
      | Inr y \<Rightarrow> (case for_each f xs of Inl e \<Rightarrow> Inl e | Inr ys \<Rightarrow> Inr (y # ys)))"

section \<open>Payload Normalizer: normalizePerTraceValue\<close>

text \<open>
  \<^verbatim>\<open>
  function normalizePerTraceValue(value, traceCount){
    if(value===undefined||value===null) return value;
    if(!Array.isArray(value)) return [value];
    if(traceCount===1){
      if(value.length===0) return [[]];
      if(Array.isArray(value[0])) return value;
      return [value];
    }
    if(value.length===traceCount && value.every((item)=>Array.isArray(item)||item===null)) return value;
    if(!Array.isArray(value[0])) return [value];
    return value;
  }
  \<close>
\<close>

definition normalizePerTraceValue :: "jsval \<Rightarrow> nat \<Rightarrow> jsval" where
  "normalizePerTraceValue value traceCount =
     (if value = JUndefined \<or> value = JNull then value
      else case value of
        JArr xs \<Rightarrow>
          if traceCount = 1 then
            (if length xs = 0 then JArr [JArr []]
             else if isArray (js_at value 0) then value
             else JArr [value])
          else if length xs = traceCount \<and> list_all (\<lambda>item. isArray item \<or> item = JNull) xs
            then value
          else if \<not> isArray (js_at value 0) then JArr [value]
          else value
      | _ \<Rightarrow> JArr [value])"

text \<open>
  The case analysis as the specification words it (section 4.3): null or absent is unchanged;
  a non-sequence scalar is wrapped; for one trace a sequence of sequences, or an empty
  sequence, is left as it is and any other sequence is wrapped; for several traces a sequence
  of the right length whose elements are all sequences or null is left as it is and any other
  sequence is wrapped.
\<close>

definition normalizePerTraceValue_spec :: "jsval \<Rightarrow> nat \<Rightarrow> jsval" where
  "normalizePerTraceValue_spec v n =
     (case v of
        JUndefined \<Rightarrow> v
      | JNull \<Rightarrow> v
      | JArr xs \<Rightarrow>
          if n = 1 then (if list_all isArray xs \<or> xs = [] then v else JArr [v])
          else if length xs = n \<and> list_all (\<lambda>item. isArray item \<or> item = JNull) xs then v
          else JArr [v]
      | _ \<Rightarrow> JArr [v])"

section \<open>Payload Normalizer: stripFragileAnnotationKeys and normalizeUpdateMenus\<close>

text \<open>\<^verbatim>\<open>const TRACE_KEYS=['x','y','text','customdata'];\<close>\<close>

definition TRACE_KEYS :: "string list" where
  "TRACE_KEYS = [''x'', ''y'', ''text'', ''customdata'']"

text \<open>
  \<^verbatim>\<open>
  function stripFragileAnnotationKeys(obj){
    if(!obj||typeof obj!=='object') return;
    for(const key of Object.keys(obj)){
      if(key.startsWith('annotations[')&&key.endsWith('].text')) delete obj[key];
    }
  }
  \<close>
  The keys of an array are its indices, none of which starts with \<^verbatim>\<open>annotations[\<close>.
\<close>

definition fragile_key :: "string \<Rightarrow> bool" where
  "fragile_key key \<longleftrightarrow> prefix ''annotations['' key \<and> suffix ''].text'' key"

fun stripFragileAnnotationKeys :: "jsval \<Rightarrow> jsval" where
  "stripFragileAnnotationKeys (JObj kvs) = JObj (filter (\<lambda>p. \<not> fragile_key (fst p)) kvs)"
| "stripFragileAnnotationKeys obj = obj"

text \<open>
  The body of the loop over the buttons of one menu. The button is updated in place in the
  browser; here the updated button is returned.
  \<^verbatim>\<open>
  if(!btn||!Array.isArray(btn.args)||btn.args.length===0) continue;
  if(String(btn.method||'').toLowerCase()!=='update') continue;
  const dataArgs=btn.args[0];
  if(dataArgs&&typeof dataArgs==='object'){
    for(const key of TRACE_KEYS){
      if(key in dataArgs){
        dataArgs[key]=normalizePerTraceValue(dataArgs[key], traceCount);
      }
    }
    stripFragileAnnotationKeys(dataArgs);
  }
  const layoutArgs=btn.args.length>1?btn.args[1]:null;
  if(layoutArgs&&typeof layoutArgs==='object'){
    stripFragileAnnotationKeys(layoutArgs);
  }
  \<close>
\<close>

definition normalize_dataArgs :: "nat \<Rightarrow> jsval \<Rightarrow> jsval" where
  "normalize_dataArgs traceCount dataArgs =
     (if truthy dataArgs \<and> is_object dataArgs then
        stripFragileAnnotationKeys
          (fold (\<lambda>key d. if js_in key d
                          then js_set d key (normalizePerTraceValue (js_prop d key) traceCount)
                          else d)
                TRACE_KEYS dataArgs)
      else dataArgs)"

definition normalize_layoutArgs :: "jsval \<Rightarrow> jsval" where
  "normalize_layoutArgs layoutArgs =
     (if truthy layoutArgs \<and> is_object layoutArgs then stripFragileAnnotationKeys layoutArgs
      else layoutArgs)"

definition normalize_button :: "(rat \<Rightarrow> string) \<Rightarrow> nat \<Rightarrow> jsval \<Rightarrow> jsval" where
  "normalize_button fmt traceCount btn =
     (if \<not> truthy btn \<or> \<not> isArray (js_prop btn ''args'') \<or> js_len (js_prop btn ''args'') = 0
        then btn
      else if js_toLowerCase (js_String fmt (js_or (js_prop btn ''method'') (JStr []))) \<noteq> ''update''
        then btn
      else case js_prop btn ''args'' of
        JArr args \<Rightarrow>
          let args0 = args[0 := normalize_dataArgs traceCount (js_at (JArr args) 0)];
              layoutArgs = (if length args > 1 then js_at (JArr args) 1 else JNull);
              args1 = (if length args > 1 then args0[1 := normalize_layoutArgs layoutArgs] else args0)
          in js_set btn ''args'' (JArr args1)
      | _ \<Rightarrow> btn)"

text \<open>
  The body of the loop over the menus: \<^verbatim>\<open>const buttons=(menu&&menu.buttons)||[];\<close> and the
  loop over the buttons. When \<^verbatim>\<open>menu.buttons\<close> is falsy the loop runs over a fresh empty
  array and the menu is untouched; the characters of a string are not buttons with
  \<^verbatim>\<open>args\<close>, so a string is left alone too.
\<close>

definition normalize_menu :: "(rat \<Rightarrow> string) \<Rightarrow> nat \<Rightarrow> jsval \<Rightarrow> js_error + jsval" where
  "normalize_menu fmt traceCount menu =
     (let buttons = js_or (js_and menu (js_prop menu ''buttons'')) (JArr [])
      in case iter buttons of
           Inl e \<Rightarrow> Inl e
         | Inr bs \<Rightarrow>
             if truthy (js_and menu (js_prop menu ''buttons'')) \<and> isArray buttons
             then Inr (js_set menu ''buttons'' (JArr (map (normalize_button fmt traceCount) bs)))
             else Inr menu)"

text \<open>
  \<^verbatim>\<open>
  function normalizeUpdateMenus(){
    const layout=fig.layout||{};
    const menus=layout.updatemenus||[];
    const traceCount=(fig.data||[]).length||1;
    for(const menu of menus){ ... }
  }
  \<close>
  The function mutates \<^verbatim>\<open>fig\<close>; here it returns the document after the pass, or the
  TypeError that a non-iterable \<^verbatim>\<open>updatemenus\<close> or \<^verbatim>\<open>buttons\<close> value raises.
\<close>

definition traceCount_of :: "jsval \<Rightarrow> nat" where
  "traceCount_of fig =
     (let n = js_len (js_or (js_prop fig ''data'') (JArr [])) in if n = 0 then 1 else n)"

definition normalizeUpdateMenus :: "(rat \<Rightarrow> string) \<Rightarrow> jsval \<Rightarrow> js_error + jsval" where
  "normalizeUpdateMenus fmt fig =
     (let layout = js_or (js_prop fig ''layout'') (JObj []);
          menus = js_or (js_prop layout ''updatemenus'') (JArr []);
          traceCount = traceCount_of fig
      in case iter menus of
           Inl e \<Rightarrow> Inl e
         | Inr ms \<Rightarrow>
             (case for_each (normalize_menu fmt traceCount) ms of
                Inl e \<Rightarrow> Inl e
              | Inr ms' \<Rightarrow>
                  if truthy (js_prop layout ''updatemenus'') \<and> isArray menus
                  then Inr (js_set fig ''layout'' (js_set layout ''updatemenus'' (JArr ms')))
                  else Inr fig))"

section \<open>Reading the normalized document\<close>

text \<open>The elements of a sequence value and the keys of a mapping value; empty for anything else.\<close>

fun elems :: "jsval \<Rightarrow> jsval list" where
  "elems (JArr xs) = xs"
| "elems v = []"

fun patch_keys :: "jsval \<Rightarrow> string list" where
  "patch_keys (JObj kvs) = map fst kvs"
| "patch_keys v = []"

text \<open>
  The two guards of the button loop taken together (a button that passes them is processed),
  and the \<^verbatim>\<open>args\<close> tuple of a processed button after the loop body.
\<close>

definition processed :: "(rat \<Rightarrow> string) \<Rightarrow> jsval \<Rightarrow> bool" where
  "processed fmt btn \<longleftrightarrow>
     truthy btn \<and> isArray (js_prop btn ''args'') \<and> js_len (js_prop btn ''args'') \<noteq> 0
     \<and> js_toLowerCase (js_String fmt (js_or (js_prop btn ''method'') (JStr []))) = ''update''"

definition new_args :: "nat \<Rightarrow> jsval list \<Rightarrow> jsval list" where
  "new_args n args =
     (let args0 = args[0 := normalize_dataArgs n (js_at (JArr args) 0)];
          layoutArgs = (if length args > 1 then js_at (JArr args) 1 else JNull)
      in if length args > 1 then args0[1 := normalize_layoutArgs layoutArgs] else args0)"

text \<open>
  Two documents with one trace and one menu. In the first the button, whose method is
  spelled \<^verbatim>\<open>Update\<close>, patches \<^verbatim>\<open>y\<close> with a flat array and carries positional annotation keys in
  both patches. In the second the button patches \<^verbatim>\<open>y\<close> with the scalar 5.
\<close>

definition menu_button :: jsval where
  "menu_button = JObj [(''label'', JStr ''2020''), (''method'', JStr ''Update''),
     (''args'', JArr [JObj [(''y'', JArr [JNum 1, JNum 2]), (''annotations[0].text'', JStr ''a'')],
                      JObj [(''annotations[1].text'', JStr ''b''), (''title'', JStr ''t'')]])]"

definition menu_doc :: jsval where
  "menu_doc = JObj [(''data'', JArr [JObj [(''type'', JStr ''bar'')]]),
     (''layout'', JObj [(''updatemenus'', JArr [JObj [(''buttons'', JArr [menu_button])]])])]"

definition menu_button_normalized :: jsval where
  "menu_button_normalized = JObj [(''label'', JStr ''2020''), (''method'', JStr ''Update''),
     (''args'', JArr [JObj [(''y'', JArr [JArr [JNum 1, JNum 2]])], JObj [(''title'', JStr ''t'')]])]"

definition menu_doc_normalized :: jsval where
  "menu_doc_normalized = JObj [(''data'', JArr [JObj [(''type'', JStr ''bar'')]]),
     (''layout'', JObj [(''updatemenus'', JArr [JObj [(''buttons'', JArr [menu_button_normalized])]])])]"

definition scalar_doc :: "jsval \<Rightarrow> jsval" where
  "scalar_doc y = JObj [(''data'', JArr [JObj [(''type'', JStr ''bar'')]]),
     (''layout'', JObj [(''updatemenus'', JArr [JObj [(''buttons'',
        JArr [JObj [(''method'', JStr ''update''), (''args'', JArr [JObj [(''y'', y)]])]])]])])]"

section \<open>Linked-Interaction Engine: setupLinkedInteraction\<close>

text \<open>\<^verbatim>\<open>Number.isInteger(v)\<close> and \<^verbatim>\<open>typeof v==='string'\<close>.\<close>

fun isInteger :: "jsval \<Rightarrow> bool" where
  "isInteger (JNum q) = (of_int \<lfloor>q\<rfloor> = q)"
| "isInteger v = False"

fun is_string :: "jsval \<Rightarrow> bool" where
  "is_string (JStr s) = True"
| "is_string v = False"

text \<open>
  \<^verbatim>\<open>v[k]\<close> for a computed key. A number that is a valid index reads that element of an array or
  string, any other number reads nothing there; otherwise the key is \<^verbatim>\<open>String(k)\<close>.
\<close>

fun js_member :: "(rat \<Rightarrow> string) \<Rightarrow> jsval \<Rightarrow> jsval \<Rightarrow> jsval" where
  "js_member fmt (JArr xs) (JNum q) =
     (if of_int \<lfloor>q\<rfloor> = q \<and> 0 \<le> q then js_at (JArr xs) (nat \<lfloor>q\<rfloor>) else JUndefined)"
| "js_member fmt (JStr s) (JNum q) =
     (if of_int \<lfloor>q\<rfloor> = q \<and> 0 \<le> q then js_at (JStr s) (nat \<lfloor>q\<rfloor>) else JUndefined)"
| "js_member fmt v k = js_prop v (js_String fmt k)"

text \<open>
  What \<^verbatim>\<open>setupLinkedInteraction\<close> computes once and the click handler closes over:
  \<^verbatim>\<open>
  const meta=((fig.layout||{}).meta||{}).pylogue_linked_interaction;
  if(!meta||typeof meta!=='object') return;
  const sourceTrace=Number.isInteger(meta.source_trace)?meta.source_trace:0;
  const targetTrace=Number.isInteger(meta.target_trace)?meta.target_trace:1;
  const seasonMenuIndex=Number.isInteger(meta.season_menu_index)?meta.season_menu_index:0;
  const lookup=(meta.lookup&&typeof meta.lookup==='object')?meta.lookup:{};
  const defaultSeason=meta.default_season==null?'':String(meta.default_season);
  \<close>
  \<open>None\<close> is the early return: no click handler is registered.
\<close>

record linked =
  meta :: jsval
  sourceTrace :: jsval
  targetTrace :: jsval
  seasonMenuIndex :: jsval
  lookup :: jsval
  defaultSeason :: string

definition setupLinkedInteraction :: "(rat \<Rightarrow> string) \<Rightarrow> jsval \<Rightarrow> linked option" where
  "setupLinkedInteraction fmt fig =
     (let m = js_prop (js_or (js_prop (js_or (js_prop fig ''layout'') (JObj [])) ''meta'') (JObj []))
                ''pylogue_linked_interaction''
      in if \<not> truthy m \<or> \<not> is_object m then None
         else Some \<lparr>
           meta = m,
           sourceTrace = (if isInteger (js_prop m ''source_trace'')
                          then js_prop m ''source_trace'' else JNum 0),
           targetTrace = (if isInteger (js_prop m ''target_trace'')
                          then js_prop m ''target_trace'' else JNum 1),
           seasonMenuIndex = (if isInteger (js_prop m ''season_menu_index'')
                              then js_prop m ''season_menu_index'' else JNum 0),
           lookup = (if truthy (js_prop m ''lookup'') \<and> is_object (js_prop m ''lookup'')
                     then js_prop m ''lookup'' else JObj []),
           defaultSeason = (if js_prop m ''default_season'' = JNull
                               \<or> js_prop m ''default_season'' = JUndefined
                            then [] else js_String fmt (js_prop m ''default_season'')) \<rparr>)"

text \<open>
  \<^verbatim>\<open>
  function normalizeLinkedSeries(value){
    if(Array.isArray(value) && value.length===1 && Array.isArray(value[0])){
      return value[0];
    }
    return value;
  }
  \<close>
\<close>

definition normalizeLinkedSeries :: "jsval \<Rightarrow> jsval" where
  "normalizeLinkedSeries value =
     (if isArray value \<and> js_len value = 1 \<and> isArray (js_at value 0) then js_at value 0
      else value)"

text \<open>
  The live chart: \<^verbatim>\<open>gd.layout\<close> and \<^verbatim>\<open>gd._fullData\<close> as the handler reads them. The
  library calls the handler makes are its result, in the order it makes them; they patch
  trace data and axis types, not the menus or annotations the handler reads.
\<close>

record gd =
  gd_layout :: jsval
  gd_fullData :: jsval

datatype plotly_call =
    Relayout jsval
  | Restyle jsval jsval

text \<open>
  \<^verbatim>\<open>
  function activeSeason(){
    try{
      const menus=(gd.layout&&gd.layout.updatemenus)||[];
      const menu=menus[seasonMenuIndex];
      if(!menu||!Array.isArray(menu.buttons)) return defaultSeason;
      const active=Number.isInteger(menu.active)?menu.active:0;
      const btn=menu.buttons[active];
      if(!btn||btn.label==null) return defaultSeason;
      return String(btn.label);
    }catch(_err){return defaultSeason;}
  }
  \<close>
  Every property read in the body is on a truthy value, so nothing is thrown.
\<close>

definition season_menu :: "(rat \<Rightarrow> string) \<Rightarrow> linked \<Rightarrow> gd \<Rightarrow> jsval" where
  "season_menu fmt cfg g =
     js_member fmt (js_or (js_and (gd_layout g) (js_prop (gd_layout g) ''updatemenus'')) (JArr []))
       (seasonMenuIndex cfg)"

definition active_button :: "(rat \<Rightarrow> string) \<Rightarrow> jsval \<Rightarrow> jsval" where
  "active_button fmt menu =
     js_member fmt (js_prop menu ''buttons'')
       (if isInteger (js_prop menu ''active'') then js_prop menu ''active'' else JNum 0)"

definition activeSeason :: "(rat \<Rightarrow> string) \<Rightarrow> linked \<Rightarrow> gd \<Rightarrow> string" where
  "activeSeason fmt cfg g =
     (let menu = season_menu fmt cfg g
      in if \<not> truthy menu \<or> \<not> isArray (js_prop menu ''buttons'') then defaultSeason cfg
         else let btn = active_button fmt menu
              in if \<not> truthy btn \<or> js_prop btn ''label'' = JNull
                     \<or> js_prop btn ''label'' = JUndefined
                 then defaultSeason cfg
                 else js_String fmt (js_prop btn ''label''))"

text \<open>
  The click handler, piece by piece.
  \<^verbatim>\<open>
  const point=eventData&&eventData.points&&eventData.points[0];
  if(!point||point.curveNumber!==sourceTrace) return;
  const label=String(point.x);
  const season=activeSeason();
  const combinedKey=season+'||'+label;
  const payload=lookup[combinedKey]||lookup[label];
  if(!payload||typeof payload!=='object') return;
  \<close>
\<close>

definition click_point :: "jsval \<Rightarrow> jsval" where
  "click_point eventData =
     js_and (js_and eventData (js_prop eventData ''points''))
            (js_at (js_prop eventData ''points'') 0)"

definition click_label :: "(rat \<Rightarrow> string) \<Rightarrow> jsval \<Rightarrow> string" where
  "click_label fmt eventData = js_String fmt (js_prop (click_point eventData) ''x'')"

definition combinedKey :: "string \<Rightarrow> string \<Rightarrow> string" where
  "combinedKey season label = season @ ''||'' @ label"

definition resolve_payload :: "linked \<Rightarrow> string \<Rightarrow> string \<Rightarrow> jsval" where
  "resolve_payload cfg season label =
     js_or (js_prop (lookup cfg) (combinedKey season label)) (js_prop (lookup cfg) label)"

text \<open>
  \<^verbatim>\<open>
  const update={};
  for(const key of TRACE_KEYS){
    if(payload[key]!==undefined){
      const val=(key==='customdata')?payload[key]:normalizeLinkedSeries(payload[key]);
      update[key]=[val];
    }
  }
  \<close>
\<close>

definition linked_value :: "jsval \<Rightarrow> string \<Rightarrow> jsval" where
  "linked_value payload key =
     (if key = ''customdata'' then js_prop payload key
      else normalizeLinkedSeries (js_prop payload key))"

definition build_update :: "jsval \<Rightarrow> jsval" where
  "build_update payload =
     fold (\<lambda>key update. if js_prop payload key \<noteq> JUndefined
                          then js_set update key (JArr [linked_value payload key])
                          else update)
          TRACE_KEYS (JObj [])"

text \<open>
  \<^verbatim>\<open>
  try{
    const fullData=gd._fullData||[];
    const target=fullData[targetTrace]||{};
    const yRef=String(target.yaxis||'y');
    const yLayoutKey=(yRef==='y')?'yaxis':'yaxis'+yRef.slice(1);
    const yVals=payload.y;
    if(Array.isArray(yVals) && yVals.length>0 && typeof yVals[0]==='string'){
      const patch={};
      patch[yLayoutKey+'.type']='category';
      Plotly.relayout(gd, patch);
    }
  }catch(_err){}
  \<close>
\<close>

definition yLayoutKey :: "(rat \<Rightarrow> string) \<Rightarrow> linked \<Rightarrow> gd \<Rightarrow> string" where
  "yLayoutKey fmt cfg g =
     (let fullData = js_or (gd_fullData g) (JArr []);
          target = js_or (js_member fmt fullData (targetTrace cfg)) (JObj []);
          yRef = js_String fmt (js_or (js_prop target ''yaxis'') (JStr ''y''))
      in if yRef = ''y'' then ''yaxis'' else ''yaxis'' @ drop 1 yRef)"

definition axis_relayout :: "(rat \<Rightarrow> string) \<Rightarrow> linked \<Rightarrow> gd \<Rightarrow> jsval \<Rightarrow> plotly_call list" where
  "axis_relayout fmt cfg g payload =
     (let yVals = js_prop payload ''y''
      in if isArray yVals \<and> js_len yVals > 0 \<and> is_string (js_at yVals 0)
         then [Relayout (JObj [(yLayoutKey fmt cfg g @ ''.type'', JStr ''category'')])]
         else [])"

text \<open>
  \<^verbatim>\<open>
  if(payload.title){
    try{
      const anns=(gd.layout&&gd.layout.annotations)||[];
      const idx=Number.isInteger(meta.target_title_annotation_index)
        ?meta.target_title_annotation_index:(anns.length>1?1:0);
      if(anns.length && idx>=0 && idx<anns.length){
        const relayoutPatch={};
        relayoutPatch['annotations['+idx+'].text']=String(payload.title);
        Plotly.relayout(gd, relayoutPatch);
      }else{
        Plotly.relayout(gd, {title:String(payload.title)});
      }
    }catch(_err){}
  }
  \<close>
\<close>

definition annotations_of :: "gd \<Rightarrow> jsval" where
  "annotations_of g = js_or (js_and (gd_layout g) (js_prop (gd_layout g) ''annotations'')) (JArr [])"

definition title_index :: "linked \<Rightarrow> jsval \<Rightarrow> rat" where
  "title_index cfg anns =
     (case js_prop (meta cfg) ''target_title_annotation_index'' of
        JNum q \<Rightarrow> if of_int \<lfloor>q\<rfloor> = q then q else if js_len anns > 1 then 1 else 0
      | _ \<Rightarrow> if js_len anns > 1 then 1 else 0)"

definition title_relayout :: "(rat \<Rightarrow> string) \<Rightarrow> linked \<Rightarrow> gd \<Rightarrow> jsval \<Rightarrow> plotly_call list" where
  "title_relayout fmt cfg g payload =
     (if truthy (js_prop payload ''title'') then
        (let anns = annotations_of g;
             idx = title_index cfg anns
         in if js_len anns \<noteq> 0 \<and> idx \<ge> 0 \<and> idx < of_nat (js_len anns)
            then [Relayout (JObj [(''annotations['' @ js_String fmt (JNum idx) @ ''].text'',
                                   JStr (js_String fmt (js_prop payload ''title'')))])]
            else [Relayout (JObj [(''title'', JStr (js_String fmt (js_prop payload ''title'')))])])
      else [])"

text \<open>
  The handler itself: the early returns, then the axis patch, the restyle of the target trace
  (\<^verbatim>\<open>Plotly.restyle(gd, update, [targetTrace]);\<close>) and the title patch.
\<close>

definition plotly_click :: "(rat \<Rightarrow> string) \<Rightarrow> linked \<Rightarrow> gd \<Rightarrow> jsval \<Rightarrow> plotly_call list" where
  "plotly_click fmt cfg g eventData =
     (let point = click_point eventData
      in if \<not> truthy point \<or> js_prop point ''curveNumber'' \<noteq> sourceTrace cfg then []
         else let payload = resolve_payload cfg (activeSeason fmt cfg g) (click_label fmt eventData)
              in if \<not> truthy payload \<or> \<not> is_object payload then []
                 else let update = build_update payload
                      in if length (patch_keys update) = 0 then []
                         else axis_relayout fmt cfg g payload
                              @ [Restyle update (JArr [targetTrace cfg])]
                              @ title_relayout fmt cfg g payload)"

text \<open>
  The title-annotation choice as the specification words it: the second annotation when
  exactly two exist, else the first.
\<close>

definition title_index_spec :: "nat \<Rightarrow> rat" where
  "title_index_spec n = (if n = 2 then 1 else 0)"

text \<open>
  The example of the specification: \<^verbatim>\<open>lookup = {"2020||MI": {"y": [10,20], "title": "MI 2020"}}\<close>,
  a season menu whose active button is labelled by the given season, a given list of
  annotations, and a click on the bar \<^verbatim>\<open>MI\<close> of trace 0.
\<close>

definition mi_fig :: "jsval \<Rightarrow> jsval" where
  "mi_fig payload = JObj [(''data'', JArr [JObj [], JObj []]),
     (''layout'', JObj [(''meta'', JObj [(''pylogue_linked_interaction'',
        JObj [(''source_trace'', JNum 0), (''target_trace'', JNum 1),
              (''default_season'', JStr ''2019''),
              (''lookup'', JObj [(''2020||MI'', payload)])])])])]"

definition mi_payload :: jsval where
  "mi_payload = JObj [(''y'', JArr [JNum 10, JNum 20]), (''title'', JStr ''MI 2020'')]"

definition mi_gd :: "string \<Rightarrow> jsval list \<Rightarrow> gd" where
  "mi_gd season anns = \<lparr> gd_layout = JObj [
       (''updatemenus'', JArr [JObj [(''active'', JNum 1),
          (''buttons'', JArr [JObj [(''label'', JStr ''2019'')], JObj [(''label'', JStr season)]])]]),
       (''annotations'', JArr anns)],
     gd_fullData = JArr [JObj [(''yaxis'', JStr ''y'')], JObj [(''yaxis'', JStr ''y2'')]] \<rparr>"

definition mi_click :: "rat \<Rightarrow> jsval" where
  "mi_click curve = JObj [(''points'', JArr [JObj [(''curveNumber'', JNum curve), (''x'', JStr ''MI'')]])]"

text \<open>What \<^verbatim>\<open>setupLinkedInteraction\<close> computes for the example document.\<close>

definition mi_cfg :: "jsval \<Rightarrow> linked" where
  "mi_cfg payload = \<lparr>
     meta = JObj [(''source_trace'', JNum 0), (''target_trace'', JNum 1),
                  (''default_season'', JStr ''2019''),
                  (''lookup'', JObj [(''2020||MI'', payload)])],
     sourceTrace = JNum 0, targetTrace = JNum 1, seasonMenuIndex = JNum 0,
     lookup = JObj [(''2020||MI'', payload)], defaultSeason = ''2019'' \<rparr>"

text \<open>The keys of \<^verbatim>\<open>TRACE_KEYS\<close> that are present in a payload, in that order.\<close>

definition present_keys :: "jsval \<Rightarrow> string list" where
  "present_keys payload = filter (\<lambda>k. js_prop payload k \<noteq> JUndefined) TRACE_KEYS"

section \<open>Python values and the server-side pass of render_plotly_chart_py\<close>

text \<open>
  What \<^verbatim>\<open>fig.to_plotly_json()\<close> returns, as far as \<^verbatim>\<open>json.dumps\<close> can write it: Python keeps
  integers and floats apart, and \<^verbatim>\<open>bool\<close> is a subclass of \<^verbatim>\<open>int\<close>. A finite float is a rational
  (NaN and the infinities are left out).
\<close>

datatype pyval =
    PNone
  | PBool bool
  | PInt int
  | PFloat rat
  | PStr string
  | PList "pyval list"
  | PDict "(string \<times> pyval) list"

text \<open>Truth value testing: \<^verbatim>\<open>None\<close>, \<^verbatim>\<open>False\<close>, zero and empty containers are false.\<close>

fun py_truthy :: "pyval \<Rightarrow> bool" where
  "py_truthy PNone = False"
| "py_truthy (PBool b) = b"
| "py_truthy (PInt i) = (i \<noteq> 0)"
| "py_truthy (PFloat q) = (q \<noteq> 0)"
| "py_truthy (PStr s) = (s \<noteq> [])"
| "py_truthy (PList xs) = (xs \<noteq> [])"
| "py_truthy (PDict kvs) = (kvs \<noteq> [])"

definition py_or :: "pyval \<Rightarrow> pyval \<Rightarrow> pyval" where
  "py_or a b = (if py_truthy a then a else b)"

text \<open>\<^verbatim>\<open>d.get(k)\<close>, \<^verbatim>\<open>d.setdefault(k, v)\<close> (the dict after the call) and \<^verbatim>\<open>d.pop(k, None)\<close>.\<close>

definition dict_get :: "(string \<times> pyval) list \<Rightarrow> string \<Rightarrow> pyval" where
  "dict_get kvs k = (case map_of kvs k of Some v \<Rightarrow> v | None \<Rightarrow> PNone)"

definition setdefault :: "(string \<times> pyval) list \<Rightarrow> string \<Rightarrow> pyval \<Rightarrow> (string \<times> pyval) list" where
  "setdefault kvs k v = (if k \<in> set (map fst kvs) then kvs else kvs @ [(k, v)])"

definition dict_pop :: "string \<Rightarrow> (string \<times> pyval) list \<Rightarrow> (string \<times> pyval) list" where
  "dict_pop k kvs = filter (\<lambda>p. fst p \<noteq> k) kvs"

text \<open>\<^verbatim>\<open>isinstance(v, (int, float))\<close> and \<^verbatim>\<open>int(v)\<close>, which truncates a float toward zero.\<close>

fun is_int_or_float :: "pyval \<Rightarrow> bool" where
  "is_int_or_float (PInt i) = True"
| "is_int_or_float (PFloat q) = True"
| "is_int_or_float (PBool b) = True"
| "is_int_or_float v = False"

fun py_int :: "pyval \<Rightarrow> int" where
  "py_int (PInt i) = i"
| "py_int (PFloat q) = (if 0 \<le> q then \<lfloor>q\<rfloor> else \<lceil>q\<rceil>)"
| "py_int (PBool b) = (if b then 1 else 0)"
| "py_int v = 0"

fun type_name :: "pyval \<Rightarrow> string" where
  "type_name PNone = ''NoneType''"
| "type_name (PBool b) = ''bool''"
| "type_name (PInt i) = ''int''"
| "type_name (PFloat q) = ''float''"
| "type_name (PStr s) = ''str''"
| "type_name (PList xs) = ''list''"
| "type_name (PDict kvs) = ''dict''"

text \<open>The messages of the AttributeError of \<^verbatim>\<open>v.get\<close> and the TypeError of \<^verbatim>\<open>v["autosize"] = True\<close>.\<close>

definition no_get :: "pyval \<Rightarrow> string" where
  "no_get v = [CHR 0x27] @ type_name v @ [CHR 0x27] @ '' object has no attribute '' @ [CHR 0x27] @ ''get'' @ [CHR 0x27]"

definition no_item_assignment :: "pyval \<Rightarrow> string" where
  "no_item_assignment v =
     (case v of
        PList xs \<Rightarrow> ''list indices must be integers or slices, not str''
      | _ \<Rightarrow> [CHR 0x27] @ type_name v @ [CHR 0x27] @ '' object does not support item assignment'')"

text \<open>The JSON value that \<^verbatim>\<open>json.dumps\<close> writes and the browser reads back.\<close>

fun to_js :: "pyval \<Rightarrow> jsval" where
  "to_js PNone = JNull"
| "to_js (PBool b) = JBool b"
| "to_js (PInt i) = JNum (of_int i)"
| "to_js (PFloat q) = JNum q"
| "to_js (PStr s) = JStr s"
| "to_js (PList xs) = JArr (map to_js xs)"
| "to_js (PDict kvs) = JObj (map (\<lambda>p. (fst p, to_js (snd p))) kvs)"

text \<open>
  The page that is stored: the script is fixed text around three values,
  \<^verbatim>\<open>const fig=...\<close>, \<^verbatim>\<open>const explicitHeight=...\<close> and \<^verbatim>\<open>const defaultHeight=...\<close>.
\<close>

record page =
  page_fig :: jsval
  page_explicitHeight :: bool
  page_defaultHeight :: int

text \<open>
  From the serialized figure to the page; \<open>Inl\<close> carries the message of an exception raised
  on the way.
  \<^verbatim>\<open>
  layout = fig_json.get("layout") or {}
  user_height = layout.get("height")
  has_explicit_height = isinstance(user_height, (int, float))
  default_height = int(user_height) if has_explicit_height else 420

  if not has_explicit_height:
      # Let Plotly autosize width while we manage a mobile-friendly height.
      fig_json.setdefault("layout", {})
      fig_json["layout"]["autosize"] = True
      fig_json["layout"].pop("width", None)

  fig_payload = json.dumps(fig_json, cls=PlotlyJSONEncoder)
  \<close>
\<close>

definition prepare_page :: "pyval \<Rightarrow> string + page" where
  "prepare_page fig_json =
     (case fig_json of
        PDict kvs \<Rightarrow>
          (case py_or (dict_get kvs ''layout'') (PDict []) of
             PDict layout \<Rightarrow>
               let user_height = dict_get layout ''height'';
                   has_explicit_height = is_int_or_float user_height;
                   default_height = (if has_explicit_height then py_int user_height else 420)
               in if \<not> has_explicit_height then
                    (let kvs1 = setdefault kvs ''layout'' (PDict [])
                     in case dict_get kvs1 ''layout'' of
                          PDict l1 \<Rightarrow>
                            Inr \<lparr> page_fig = to_js (PDict (assign ''layout''
                                     (PDict (dict_pop ''width'' (assign ''autosize'' (PBool True) l1))) kvs1)),
                                  page_explicitHeight = False,
                                  page_defaultHeight = default_height \<rparr>
                        | v \<Rightarrow> Inl (no_item_assignment v))
                  else Inr \<lparr> page_fig = to_js fig_json, page_explicitHeight = True,
                             page_defaultHeight = default_height \<rparr>
           | v \<Rightarrow> Inl (no_get v))
      | v \<Rightarrow> Inl (no_get v))"

section \<open>Responsive Sizing Controller: mobileHeight and render\<close>

text \<open>
  \<^verbatim>\<open>Math.round(x)\<close> is the integer nearest to \<open>x\<close>, a tie going up. The script rounds
  \<^verbatim>\<open>w*0.6\<close> for an integer \<open>w\<close> between 280 and 1400: three fifths of an integer is at least
  one tenth away from every tie, far more than the error of the double product, so rounding
  the exact product gives the same integer.
\<close>

definition js_round :: "rat \<Rightarrow> int" where
  "js_round x = \<lfloor>x + 1 / 2\<rfloor>"

text \<open>
  \<^verbatim>\<open>
  function mobileHeight(){
    if(explicitHeight) return defaultHeight;
    const w=Math.max(280, Math.min(window.innerWidth||1024, 1400));
    return Math.max(280, Math.min(560, Math.round(w*0.6)));
  }
  \<close>
  \<^verbatim>\<open>window.innerWidth\<close> is an integer number of pixels; 0 is falsy.
\<close>

definition mobileHeight :: "page \<Rightarrow> int \<Rightarrow> int" where
  "mobileHeight pg innerWidth =
     (if page_explicitHeight pg then page_defaultHeight pg
      else let w = max 280 (min (if innerWidth = 0 then 1024 else innerWidth) 1400)
           in max 280 (min 560 (js_round (of_int w * (6 / 10)))))"

text \<open>
  \<^verbatim>\<open>
  function render(){
    normalizeUpdateMenus();
    fig.layout=fig.layout||{};
    fig.layout.autosize=true;
    fig.layout.width=null;
    fig.layout.height=mobileHeight();
    if(window.frameElement){ ... }
    Plotly.react(gd, fig.data||[], fig.layout, {responsive:true, displaylogo:false});
  }
  \<close>
  The document after one call of \<^verbatim>\<open>render\<close> at the given viewport width, or the TypeError of
  the normalization pass. The layout of a stored page is an object; assigning a property to
  a number, string or boolean does nothing.
\<close>

definition render :: "(rat \<Rightarrow> string) \<Rightarrow> page \<Rightarrow> int \<Rightarrow> jsval \<Rightarrow> js_error + jsval" where
  "render fmt pg innerWidth doc =
     (case normalizeUpdateMenus fmt doc of
        Inl e \<Rightarrow> Inl e
      | Inr doc1 \<Rightarrow>
          let layout0 = js_or (js_prop doc1 ''layout'') (JObj []);
              layout1 = js_set layout0 ''autosize'' (JBool True);
              layout2 = js_set layout1 ''width'' JNull;
              layout3 = js_set layout2 ''height'' (JNum (of_int (mobileHeight pg innerWidth)))
          in Inr (js_set doc1 ''layout'' layout3))"

text \<open>
  The computed height as the specification words it: the explicit height \<open>h\<close> when there is
  one, else \<^verbatim>\<open>clamp(280, 560, round(0.6 * clamp(280, width, 1400)))\<close>.
\<close>

definition clamp :: "rat \<Rightarrow> rat \<Rightarrow> rat \<Rightarrow> rat" where
  "clamp lo hi x = max lo (min hi x)"

definition computed_height_spec :: "rat option \<Rightarrow> int \<Rightarrow> rat" where
  "computed_height_spec h width =
     (case h of
        Some x \<Rightarrow> x
      | None \<Rightarrow> clamp 280 560 (of_int (js_round (6 / 10 * clamp 280 1400 (of_int width)))))"

text \<open>A figure with the given layout entries and no traces.\<close>

definition layout_fig :: "(string \<times> pyval) list \<Rightarrow> pyval" where
  "layout_fig layout = PDict [(''data'', PList []), (''layout'', PDict layout)]"

text \<open>
  Example figures and the pages the server-side pass makes of them: a fixed height of 300
  with a width of 500, a height of 300.5, and no height.
\<close>

definition fixed_fig :: pyval where
  "fixed_fig = layout_fig [(''height'', PInt 300), (''width'', PInt 500), (''autosize'', PBool False)]"

definition fixed_page :: page where
  "fixed_page = \<lparr> page_fig = to_js fixed_fig, page_explicitHeight = True, page_defaultHeight = 300 \<rparr>"

definition fractional_fig :: pyval where
  "fractional_fig = layout_fig [(''height'', PFloat (601 / 2))]"

definition fractional_page :: page where
  "fractional_page = \<lparr> page_fig = to_js fractional_fig, page_explicitHeight = True,
                        page_defaultHeight = 300 \<rparr>"

definition responsive_page :: page where
  "responsive_page = \<lparr> page_fig = JObj [(''data'', JArr []), (''layout'', JObj [(''autosize'', JBool True)])],
                        page_explicitHeight = False, page_defaultHeight = 420 \<rparr>"

section \<open>Snippet execution and render entry point: render_plotly_chart_py\<close>

text \<open>
  How a call into code the function does not control can end: it returns, it raises an
  exception that \<^verbatim>\<open>except Exception\<close> catches (with the text \<^verbatim>\<open>str(exc)\<close>), it raises one that
  \<^verbatim>\<open>except Exception\<close> does not catch (\<^verbatim>\<open>SystemExit\<close>, \<^verbatim>\<open>KeyboardInterrupt\<close> and
  \<^verbatim>\<open>GeneratorExit\<close> derive from \<^verbatim>\<open>BaseException\<close> only), or it never returns.
\<close>

datatype 'a outcome =
    Returned 'a
  | Raised string
  | RaisedBase string
  | Diverged

fun bind_outcome :: "'a outcome \<Rightarrow> ('a \<Rightarrow> 'b outcome) \<Rightarrow> 'b outcome" where
  "bind_outcome (Returned x) f = f x"
| "bind_outcome (Raised m) f = Raised m"
| "bind_outcome (RaisedBase m) f = RaisedBase m"
| "bind_outcome Diverged f = Diverged"

text \<open>\<^verbatim>\<open>try: ... except Exception as e: ...\<close>\<close>

fun except_Exception :: "'a outcome \<Rightarrow> (string \<Rightarrow> 'a outcome) \<Rightarrow> 'a outcome" where
  "except_Exception (Raised m) handler = handler m"
| "except_Exception r handler = r"

text \<open>
  What \<^verbatim>\<open>local_scope.get("fig")\<close> is after \<^verbatim>\<open>exec(plotly_python, local_scope)\<close>: the name was
  never bound; it is bound to a value without a \<^verbatim>\<open>to_plotly_json\<close> attribute (\<^verbatim>\<open>None\<close>, a
  number, a string, a dict); or it is bound to an object that has the attribute, given by
  how the call \<^verbatim>\<open>fig.to_plotly_json()\<close> ends.
\<close>

datatype figval =
    Unbound
  | Plain pyval
  | Chart "pyval outcome"

text \<open>
  What the function needs from outside: whether the optional imports succeeded, what
  \<^verbatim>\<open>exec\<close> does with a snippet (given the rows bound to \<^verbatim>\<open>df\<close>, if any), and
  \<^verbatim>\<open>pylogue.embeds.store_html\<close>, which returns the id under which it stored the page.
\<close>

record 'r env =
  deps_present :: bool
  exec_fig :: "string \<Rightarrow> 'r option \<Rightarrow> figval outcome"
  store_html :: "page \<Rightarrow> string outcome"

text \<open>The value returned: the mapping with the artifact id and the message, or a string.\<close>

datatype py_result =
    Artifact string string
  | ErrorText string

definition missing_dependencies :: string where
  "missing_dependencies = ''Missing dependencies. Install with: pip install '' @ [CHR 0x22]
     @ ''pylogue[dashboard]'' @ [CHR 0x22] @ '' plotly''"

definition fig_required :: string where
  "fig_required = ''Error: Plotly code must define a '' @ [CHR 0x60] @ ''fig'' @ [CHR 0x60] @ '' variable.''"

text \<open>
  \<^verbatim>\<open>
  if sql_query_runner is not None and sql_query is not None:
      df = pd.DataFrame(sql_query_runner(sql_query))
  \<close>
\<close>

definition run_query :: "(string \<Rightarrow> 'r outcome) option \<Rightarrow> string option \<Rightarrow> 'r option outcome" where
  "run_query sql_query_runner sql_query =
     (case sql_query_runner of
        None \<Rightarrow> Returned None
      | Some runner \<Rightarrow>
          (case sql_query of
             None \<Rightarrow> Returned None
           | Some q \<Rightarrow> bind_outcome (runner q) (\<lambda>rows. Returned (Some rows))))"

text \<open>
  After the snippet has run:
  \<^verbatim>\<open>
  fig = local_scope.get("fig")
  if fig is None or not hasattr(fig, "to_plotly_json"):
      return "Error: Plotly code must define a `fig` variable."
  try:
      fig_json = fig.to_plotly_json()
  except Exception as exc:
      return f"Error serializing Plotly figure: {exc}"
  ...
  html_id = store_html(iframe_html)
  return {"_pylogue_html_id": html_id, "message": "Plotly chart rendered."}
  \<close>
\<close>

definition after_exec :: "'r env \<Rightarrow> figval \<Rightarrow> py_result outcome" where
  "after_exec e fv =
     (case fv of
        Unbound \<Rightarrow> Returned (ErrorText fig_required)
      | Plain v \<Rightarrow> Returned (ErrorText fig_required)
      | Chart serialized \<Rightarrow>
          (case serialized of
             Raised m \<Rightarrow> Returned (ErrorText (''Error serializing Plotly figure: '' @ m))
           | RaisedBase m \<Rightarrow> RaisedBase m
           | Diverged \<Rightarrow> Diverged
           | Returned fig_json \<Rightarrow>
               (case prepare_page fig_json of
                  Inl m \<Rightarrow> Raised m
                | Inr pg \<Rightarrow>
                    bind_outcome (store_html e pg)
                      (\<lambda>html_id. Returned (Artifact html_id ''Plotly chart rendered.'')))))"

text \<open>
  The body of the outer \<^verbatim>\<open>try\<close>: the dependency check, the query, and the snippet under its
  own \<^verbatim>\<open>try\<close>.
  \<^verbatim>\<open>
  try:
      exec(plotly_python, local_scope)
  except Exception as exc:
      return f"Error executing Plotly code: {exc}"
  \<close>
\<close>

definition render_body ::
  "'r env \<Rightarrow> (string \<Rightarrow> 'r outcome) option \<Rightarrow> string option \<Rightarrow> string \<Rightarrow> py_result outcome" where
  "render_body e sql_query_runner sql_query plotly_python =
     (if \<not> deps_present e then Returned (ErrorText missing_dependencies)
      else bind_outcome (run_query sql_query_runner sql_query)
        (\<lambda>df. case exec_fig e plotly_python df of
                 Raised m \<Rightarrow> Returned (ErrorText (''Error executing Plotly code: '' @ m))
               | RaisedBase m \<Rightarrow> RaisedBase m
               | Diverged \<Rightarrow> Diverged
               | Returned fv \<Rightarrow> after_exec e fv))"

text \<open>
  \<^verbatim>\<open>
  try:
      ...
  except Exception as e:
      return f"Error in render_plotly_chart_py: {e}"
  \<close>
\<close>

definition render_plotly_chart_py ::
  "'r env \<Rightarrow> (string \<Rightarrow> 'r outcome) option \<Rightarrow> string option \<Rightarrow> string \<Rightarrow> py_result outcome" where
  "render_plotly_chart_py e sql_query_runner sql_query plotly_python =
     except_Exception (render_body e sql_query_runner sql_query plotly_python)
       (\<lambda>m. Returned (ErrorText (''Error in render_plotly_chart_py: '' @ m)))"

text \<open>A call that returns or raises an exception that \<^verbatim>\<open>except Exception\<close> catches.\<close>

fun contained :: "'a outcome \<Rightarrow> bool" where
  "contained (Returned x) = True"
| "contained (Raised m) = True"
| "contained (RaisedBase m) = False"
| "contained Diverged = False"

text \<open>
  An environment for examples: \<^verbatim>\<open>raise SystemExit\<close> raises past \<^verbatim>\<open>except Exception\<close>,
  \<^verbatim>\<open>while True: pass\<close> does not return, \<^verbatim>\<open>x = 1/0\<close> raises ZeroDivisionError,
  \<^verbatim>\<open>fig = 5\<close> binds a number, \<^verbatim>\<open>fig = go.Figure()\<close> binds an empty figure,
  \<^verbatim>\<open>fig = Broken()\<close> binds an object whose \<^verbatim>\<open>to_plotly_json\<close> raises, and any other snippet
  here leaves \<^verbatim>\<open>fig\<close> unbound.
\<close>

definition example_env :: "unit env" where
  "example_env = \<lparr>
     deps_present = True,
     exec_fig = (\<lambda>code df.
        if code = ''raise SystemExit'' then RaisedBase []
        else if code = ''while True: pass'' then Diverged
        else if code = ''x = 1/0'' then Raised ''division by zero''
        else if code = ''fig = 5'' then Returned (Plain (PInt 5))
        else if code = ''fig = go.Figure()'' then Returned (Chart (Returned (layout_fig [])))
        else if code = ''fig = Broken()'' then Returned (Chart (Raised ''bad trace''))
        else Returned Unbound),
     store_html = (\<lambda>pg. Returned ''html-1'') \<rparr>"

section \<open>The agent tool render_plotly_chart and its query gate\<close>

text \<open>\<^verbatim>\<open>str.strip()\<close> removes whitespace; on bytes these are the ASCII whitespace characters.\<close>

definition py_space :: "char \<Rightarrow> bool" where
  "py_space c \<longleftrightarrow> (of_char c :: nat) \<in> {9, 10, 11, 12, 13, 28, 29, 30, 31, 32}"

definition lstrip :: "(char \<Rightarrow> bool) \<Rightarrow> string \<Rightarrow> string" where
  "lstrip p s = dropWhile p s"

definition rstrip :: "(char \<Rightarrow> bool) \<Rightarrow> string \<Rightarrow> string" where
  "rstrip p s = rev (dropWhile p (rev s))"

definition strip :: "(char \<Rightarrow> bool) \<Rightarrow> string \<Rightarrow> string" where
  "strip p s = rstrip p (lstrip p s)"

text \<open>\<^verbatim>\<open>str.lower()\<close> on the ASCII letters; other bytes are left as they are.\<close>

definition py_lower :: "string \<Rightarrow> string" where
  "py_lower s = map lower_char s"

text \<open>
  \<^verbatim>\<open>s.replace("\\c", r)\<close>: every backslash followed by the character \<open>c\<close>, scanning from the
  left, becomes the character \<open>r\<close>.
\<close>

fun replace_escape :: "char \<Rightarrow> char \<Rightarrow> string \<Rightarrow> string" where
  "replace_escape c r (a # b # rest) =
     (if a = CHR 0x5C \<and> b = c then r # replace_escape c r rest
      else a # replace_escape c r (b # rest))"
| "replace_escape c r s = s"

text \<open>
  \<^verbatim>\<open>
  def _normalize_sql_query(sql_query: str) -> str:
      query = (sql_query or "").strip()
      if query.startswith("```"):
          query = query.strip("`")
          if query.lower().startswith("sql\n"):
              query = query[4:]
      if (query.startswith('"') and query.endswith('"')) or (
          query.startswith("'") and query.endswith("'")
      ):
          query = query[1:-1]
      query = (
          query.replace("\\n", "\n")
          .replace("\\t", "\t")
          .replace("\\r", "\r")
          .strip()
          .rstrip(";")
      )
      return query
  \<close>
\<close>

definition normalize_sql_query :: "string \<Rightarrow> string" where
  "normalize_sql_query sql_query =
     (let query0 = strip py_space sql_query;
          query1 = (if prefix [CHR 0x60, CHR 0x60, CHR 0x60] query0
                    then (let q = strip (\<lambda>c. c = CHR 0x60) query0
                          in if prefix (''sql'' @ [CHR 0x0A]) (py_lower q) then drop 4 q else q)
                    else query0);
          query2 = (if (prefix [CHR 0x22] query1 \<and> suffix [CHR 0x22] query1)
                       \<or> (prefix [CHR 0x27] query1 \<and> suffix [CHR 0x27] query1)
                    then butlast (tl query1) else query1)
      in rstrip (\<lambda>c. c = CHR '';'')
           (strip py_space
              (replace_escape (CHR ''r'') (CHR 0x0D)
                 (replace_escape (CHR ''t'') (CHR 0x09)
                    (replace_escape (CHR ''n'') (CHR 0x0A) query2)))))"

text \<open>
  \<^verbatim>\<open>
  def _sql_query_runner(query: str):
      normalized_inner = _normalize_sql_query(query)
      limited_query = f"SELECT * FROM ({normalized_inner}) t LIMIT 2000"
      return conn.execute(limited_query).df().to_dict(orient="records")
  \<close>
  \<open>conn_execute\<close> is the connection: what executing a statement gives.
\<close>

definition limited_query :: "string \<Rightarrow> string" where
  "limited_query query = ''SELECT * FROM ('' @ normalize_sql_query query @ '') t LIMIT 2000''"

definition sql_query_runner :: "(string \<Rightarrow> 'r outcome) \<Rightarrow> string \<Rightarrow> 'r outcome" where
  "sql_query_runner conn_execute query = conn_execute (limited_query query)"



section \<open>Properties of normalizePerTraceValue\<close>

lemma normalizePerTraceValue_null:
  "normalizePerTraceValue JNull n = JNull" "normalizePerTraceValue JUndefined n = JUndefined"
  by (simp_all add: normalizePerTraceValue_def)

lemma normalizePerTraceValue_scalar:
  "\<not> isArray v \<Longrightarrow> v \<noteq> JNull \<Longrightarrow> v \<noteq> JUndefined \<Longrightarrow> normalizePerTraceValue v n = JArr [v]"
  by (cases v) (simp_all add: normalizePerTraceValue_def)

lemma normalizePerTraceValue_empty:
  "1 \<le> n \<Longrightarrow> normalizePerTraceValue (JArr []) n = JArr [JArr []]"
  by (simp add: normalizePerTraceValue_def)

lemma normalizePerTraceValue_one:
  "normalizePerTraceValue (JArr (x # xs)) 1 = (if isArray x then JArr (x # xs) else JArr [JArr (x # xs)])"
  by (simp add: normalizePerTraceValue_def)

lemma normalizePerTraceValue_many:
  "n \<noteq> 1 \<Longrightarrow> normalizePerTraceValue (JArr (x # xs)) n =
     (if (length (x # xs) = n \<and> (\<forall>item \<in> set (x # xs). isArray item \<or> item = JNull)) \<or> isArray x
      then JArr (x # xs) else JArr [JArr (x # xs)])"
  by (auto simp add: normalizePerTraceValue_def list_all_iff)

text \<open>
  C1, as the specification states it, fails at the empty sequence with one trace: the code
  returns \<^verbatim>\<open>[[]]\<close>, the specification's case analysis leaves \<^verbatim>\<open>[]\<close> as it is.
\<close>

theorem C1_spec_cases_counterexample:
  "normalizePerTraceValue (JArr []) 1 \<noteq> normalizePerTraceValue_spec (JArr []) 1"
  by (simp add: normalizePerTraceValue_def normalizePerTraceValue_spec_def)

text \<open>
  C1 (amended): for every value \<open>v\<close> and trace count \<open>n \<ge> 1\<close>, null and absent values are returned
  unchanged; a non-sequence scalar becomes \<^verbatim>\<open>[v]\<close>; the empty sequence becomes \<^verbatim>\<open>[[]]\<close>;
  with one trace a non-empty sequence is left as it is when its first element is a sequence
  and wrapped as \<^verbatim>\<open>[v]\<close> otherwise; with several traces a non-empty sequence is left as it
  is when its length is \<open>n\<close> and all its elements are sequences or null, or when its first
  element is a sequence, and wrapped as \<^verbatim>\<open>[v]\<close> otherwise.
\<close>

theorem C1_normalizePerTraceValue_cases:
  "1 \<le> n \<Longrightarrow>
   normalizePerTraceValue JNull n = JNull
   \<and> normalizePerTraceValue JUndefined n = JUndefined
   \<and> (\<not> isArray v \<and> v \<noteq> JNull \<and> v \<noteq> JUndefined \<longrightarrow> normalizePerTraceValue v n = JArr [v])
   \<and> normalizePerTraceValue (JArr []) n = JArr [JArr []]
   \<and> (isArray x \<longrightarrow> normalizePerTraceValue (JArr (x # xs)) 1 = JArr (x # xs))
   \<and> (\<not> isArray x \<longrightarrow> normalizePerTraceValue (JArr (x # xs)) 1 = JArr [JArr (x # xs)])
   \<and> (n \<noteq> 1 \<and> length (x # xs) = n \<and> (\<forall>item \<in> set (x # xs). isArray item \<or> item = JNull)
        \<longrightarrow> normalizePerTraceValue (JArr (x # xs)) n = JArr (x # xs))
   \<and> (n \<noteq> 1 \<and> isArray x \<longrightarrow> normalizePerTraceValue (JArr (x # xs)) n = JArr (x # xs))
   \<and> (n \<noteq> 1 \<and> \<not> isArray x
          \<and> \<not> (length (x # xs) = n \<and> (\<forall>item \<in> set (x # xs). isArray item \<or> item = JNull))
        \<longrightarrow> normalizePerTraceValue (JArr (x # xs)) n = JArr [JArr (x # xs)])"
proof (intro conjI)
  assume n: "1 \<le> n"
  show "normalizePerTraceValue JNull n = JNull"
    by (rule normalizePerTraceValue_null)
  show "normalizePerTraceValue JUndefined n = JUndefined"
    by (rule normalizePerTraceValue_null)
  show "\<not> isArray v \<and> v \<noteq> JNull \<and> v \<noteq> JUndefined \<longrightarrow> normalizePerTraceValue v n = JArr [v]"
    using normalizePerTraceValue_scalar [of v n] by blast
  show "normalizePerTraceValue (JArr []) n = JArr [JArr []]"
    using n by (rule normalizePerTraceValue_empty)
  show "isArray x \<longrightarrow> normalizePerTraceValue (JArr (x # xs)) 1 = JArr (x # xs)"
    using normalizePerTraceValue_one [of x xs] by presburger
  show "\<not> isArray x \<longrightarrow> normalizePerTraceValue (JArr (x # xs)) 1 = JArr [JArr (x # xs)]"
    using normalizePerTraceValue_one [of x xs] by presburger
  show "n \<noteq> 1 \<and> length (x # xs) = n \<and> (\<forall>item \<in> set (x # xs). isArray item \<or> item = JNull)
        \<longrightarrow> normalizePerTraceValue (JArr (x # xs)) n = JArr (x # xs)"
    using normalizePerTraceValue_many [of n x xs] by presburger
  show "n \<noteq> 1 \<and> isArray x \<longrightarrow> normalizePerTraceValue (JArr (x # xs)) n = JArr (x # xs)"
    using normalizePerTraceValue_many [of n x xs] by presburger
  show "n \<noteq> 1 \<and> \<not> isArray x
          \<and> \<not> (length (x # xs) = n \<and> (\<forall>item \<in> set (x # xs). isArray item \<or> item = JNull))
        \<longrightarrow> normalizePerTraceValue (JArr (x # xs)) n = JArr [JArr (x # xs)]"
    using normalizePerTraceValue_many [of n x xs] by presburger
qed

theorem C1_normalizePerTraceValue_cases_witness:
  "(1::nat) \<le> 2
   \<and> normalizePerTraceValue (JNum 5) 2 = JArr [JNum 5]
   \<and> normalizePerTraceValue (JArr []) 2 = JArr [JArr []]
   \<and> normalizePerTraceValue (JArr [JArr [JNum 1], JNum 2]) 1 = JArr [JArr [JNum 1], JNum 2]
   \<and> normalizePerTraceValue (JArr [JNum 1, JNum 2]) 1 = JArr [JArr [JNum 1, JNum 2]]
   \<and> normalizePerTraceValue (JArr [JNull, JArr [JNum 1]]) 2 = JArr [JNull, JArr [JNum 1]]
   \<and> normalizePerTraceValue (JArr [JArr [JNum 1], JArr [JNum 2], JArr [JNum 3]]) 2
       = JArr [JArr [JNum 1], JArr [JNum 2], JArr [JNum 3]]
   \<and> normalizePerTraceValue (JArr [JNum 1, JNum 2, JNum 3]) 2 = JArr [JArr [JNum 1, JNum 2, JNum 3]]"
proof -
  have n: "(1::nat) \<le> 2" by simp
  show ?thesis
    using n C1_normalizePerTraceValue_cases [OF n, of "JNum 5" "JArr [JNum 1]" "[JNum 2]"]
      C1_normalizePerTraceValue_cases [OF n, of "JNum 5" "JNum 1" "[JNum 2]"]
      C1_normalizePerTraceValue_cases [OF n, of "JNum 5" "JNull" "[JArr [JNum 1]]"]
      C1_normalizePerTraceValue_cases [OF n, of "JNum 5" "JArr [JNum 1]" "[JArr [JNum 2], JArr [JNum 3]]"]
      C1_normalizePerTraceValue_cases [OF n, of "JNum 5" "JNum 1" "[JNum 2, JNum 3]"]
    by simp
qed


section \<open>Properties of the normalization pass\<close>

lemma show_nat_digits: "set (show_nat n) \<subseteq> set ''0123456789''"
proof (induction n rule: show_nat.induct)
  case (1 n)
  have d: "\<And>m. m < 10 \<Longrightarrow> ''0123456789'' ! m \<in> set ''0123456789''"
    by (rule nth_mem) simp
  show ?case
  proof (cases "n < 10")
    case True
    then show ?thesis using d [of n] by (subst show_nat.simps) simp
  next
    case False
    have "n mod 10 < 10" by simp
    then show ?thesis using False 1 d [of "n mod 10"]
      by (subst show_nat.simps) simp
  qed
qed

lemma js_prop_no_index:
  assumes "c \<in> set k" "c \<notin> set ''0123456789''" "k \<noteq> ''length''"
  shows "js_prop (JArr xs) k = JUndefined" "js_prop (JStr s) k = JUndefined"
proof -
  have "\<And>i. show_nat i \<noteq> k" using assms(1,2) show_nat_digits by blast
  then have "\<And>ns. find (\<lambda>i. show_nat i = k) ns = None" by (simp add: find_None_iff)
  then show "js_prop (JArr xs) k = JUndefined" "js_prop (JStr s) k = JUndefined"
    using assms(3) by simp_all
qed

lemma js_prop_is_object:
  assumes "c \<in> set k" "c \<notin> set ''0123456789''" "k \<noteq> ''length''"
    and "js_prop v k \<noteq> JUndefined"
  shows "\<exists>kvs. v = JObj kvs"
  using assms js_prop_no_index [OF assms(1-3)] by (cases v) auto

lemma map_of_assign: "map_of (assign k v kvs) k' = (if k' = k then Some v else map_of kvs k')"
  by (induction kvs) auto

lemma js_prop_js_set: "js_prop (js_set (JObj kvs) k v) k' = (if k' = k then v else js_prop (JObj kvs) k')"
  by (simp add: map_of_assign)

lemma fragile_key_pattern: "fragile_key (''annotations['' @ s @ ''].text'')"
  unfolding fragile_key_def prefix_def suffix_def by auto

lemma strip_keys: "key \<in> set (patch_keys (stripFragileAnnotationKeys v)) \<Longrightarrow> \<not> fragile_key key"
  by (cases v) auto

lemma fold_trace_keys_obj:
  "\<exists>kvs'. fold (\<lambda>key d. if js_in key d then js_set d key (g d key) else d) ks (JObj kvs) = JObj kvs'"
  by (induction ks arbitrary: kvs) auto

lemma normalize_dataArgs_keys:
  "key \<in> set (patch_keys (normalize_dataArgs n d)) \<Longrightarrow> \<not> fragile_key key"
proof (cases d)
  case (JObj kvs)
  obtain kvs' where "fold (\<lambda>key d. if js_in key d then js_set d key (normalizePerTraceValue (js_prop d key) n) else d) TRACE_KEYS (JObj kvs) = JObj kvs'"
    using fold_trace_keys_obj [of "\<lambda>d key. normalizePerTraceValue (js_prop d key) n"] by blast
  then show "key \<in> set (patch_keys (normalize_dataArgs n d)) \<Longrightarrow> \<not> fragile_key key"
    using JObj by (auto simp: normalize_dataArgs_def)
qed (auto simp: normalize_dataArgs_def TRACE_KEYS_def)

lemma normalize_layoutArgs_keys:
  "key \<in> set (patch_keys (normalize_layoutArgs d)) \<Longrightarrow> \<not> fragile_key key"
  by (cases d) (auto simp: normalize_layoutArgs_def)

lemma for_each_Inr: "for_each f xs = Inr ys \<Longrightarrow> y \<in> set ys \<Longrightarrow> \<exists>x \<in> set xs. f x = Inr y"
  by (induction xs arbitrary: ys) (auto split: sum.splits)



lemma lower_update_nonempty: "js_toLowerCase m = ''update'' \<Longrightarrow> m \<noteq> []"
  by (auto simp: js_toLowerCase_def)

lemma normalize_button_unprocessed: "\<not> processed fmt b \<Longrightarrow> normalize_button fmt n b = b"
  by (auto simp: processed_def normalize_button_def)

lemma normalize_button_processed:
  "processed fmt b \<Longrightarrow> js_prop b ''args'' = JArr args \<Longrightarrow>
   normalize_button fmt n b = js_set b ''args'' (JArr (new_args n args))"
  by (simp add: processed_def normalize_button_def new_args_def Let_def)

lemma new_args_length: "length (new_args n args) = length args"
  by (simp add: new_args_def Let_def)

lemma new_args_0: "0 < length args \<Longrightarrow> new_args n args ! 0 = normalize_dataArgs n (args ! 0)"
  by (simp add: new_args_def Let_def)

lemma new_args_1: "1 < length args \<Longrightarrow> new_args n args ! 1 = normalize_layoutArgs (args ! 1)"
  by (simp add: new_args_def Let_def)

lemma new_args_keys:
  assumes "patch \<in> set (take 2 (new_args n args))" "key \<in> set (patch_keys patch)"
  shows "\<not> fragile_key key"
proof -
  from assms(1) obtain i where i: "i < 2" "i < length args" "patch = new_args n args ! i"
    by (auto simp: in_set_conv_nth new_args_length)
  from i(1) have "i = 0 \<or> i = 1" by auto
  then show ?thesis
  proof
    assume "i = 0"
    then have "patch = normalize_dataArgs n (args ! 0)"
      using i new_args_0 by simp
    then show ?thesis using assms(2) normalize_dataArgs_keys by blast
  next
    assume "i = 1"
    then have "patch = normalize_layoutArgs (args ! 1)"
      using i new_args_1 by simp
    then show ?thesis using assms(2) normalize_layoutArgs_keys by blast
  qed
qed

lemma args_is_object: "js_prop b ''args'' = JArr as \<Longrightarrow> \<exists>kvs. b = JObj kvs"
  by (rule js_prop_is_object [of "CHR ''a''" "''args''"]) simp_all

lemma normalize_button_keys:
  assumes meth: "js_prop (normalize_button fmt n b) ''method'' = JStr m" "js_toLowerCase m = ''update''"
    and args: "js_prop (normalize_button fmt n b) ''args'' = JArr args'"
    and patch: "patch \<in> set (take 2 args')"
    and key: "key \<in> set (patch_keys patch)"
  shows "\<not> fragile_key key"
proof (cases "processed fmt b")
  case True
  then obtain as where as: "js_prop b ''args'' = JArr as"
    by (cases "js_prop b ''args''") (auto simp: processed_def)
  then obtain kvs where kvs: "b = JObj kvs" using args_is_object by blast
  have "normalize_button fmt n b = js_set b ''args'' (JArr (new_args n as))"
    using True as by (rule normalize_button_processed)
  then have "args' = new_args n as"
    using args kvs by (simp add: map_of_assign)
  then show ?thesis using patch key new_args_keys by blast
next
  case False
  then have same: "normalize_button fmt n b = b" by (rule normalize_button_unprocessed)
  obtain kvs where kvs: "b = JObj kvs" using args same args_is_object by metis
  have "m \<noteq> []" using meth(2) by (rule lower_update_nonempty)
  moreover have "args' \<noteq> []" using patch by auto
  ultimately have "processed fmt b"
    using meth args same kvs by (simp add: processed_def js_or_def)
  then show ?thesis using False by blast
qed


lemma buttons_is_object: "js_prop m ''buttons'' = JArr bs \<Longrightarrow> \<exists>kvs. m = JObj kvs"
  by (rule js_prop_is_object [of "CHR ''b''" "''buttons''"]) simp_all

lemma normalize_menu_buttons:
  assumes "normalize_menu fmt n m = Inr m'" "js_prop m' ''buttons'' = JArr bs'"
  shows "\<exists>bs. bs' = map (normalize_button fmt n) bs"
proof (cases "\<exists>bs. js_prop m ''buttons'' = JArr bs")
  case True
  then obtain bs where bs: "js_prop m ''buttons'' = JArr bs" by blast
  then obtain kvs where kvs: "m = JObj kvs" using buttons_is_object by blast
  have "m' = js_set m ''buttons'' (JArr (map (normalize_button fmt n) bs))"
    using assms(1) bs kvs by (simp add: normalize_menu_def js_or_def js_and_def)
  then have "bs' = map (normalize_button fmt n) bs"
    using assms(2) kvs by (simp add: map_of_assign)
  then show ?thesis by blast
next
  case False
  have "m' = m"
  proof (cases "js_and m (js_prop m ''buttons'')")
    case (JArr xs)
    then have "js_prop m ''buttons'' = JArr xs" by (cases m) (auto simp: js_and_def split: if_splits)
    then show ?thesis using False by blast
  qed (use assms(1) in \<open>auto simp: normalize_menu_def js_or_def split: if_splits sum.splits\<close>)
  then show ?thesis using assms(2) False by blast
qed

lemma layout_is_object: "js_prop fig ''layout'' = JObj kvs \<Longrightarrow> \<exists>fkvs. fig = JObj fkvs"
  by (rule js_prop_is_object [of "CHR ''l''" "''layout''"]) simp_all

lemma updatemenus_is_object: "js_prop l ''updatemenus'' = JArr ms \<Longrightarrow> \<exists>kvs. l = JObj kvs"
  by (rule js_prop_is_object [of "CHR ''u''" "''updatemenus''"]) simp_all

lemma normalizeUpdateMenus_menus:
  assumes "normalizeUpdateMenus fmt fig = Inr fig'"
    and "js_prop (js_prop fig' ''layout'') ''updatemenus'' = JArr ms'"
  shows "\<exists>ms. for_each (normalize_menu fmt (traceCount_of fig)) ms = Inr ms'"
proof (cases "\<exists>ms. js_prop (js_prop fig ''layout'') ''updatemenus'' = JArr ms")
  case True
  then obtain ms where ms: "js_prop (js_prop fig ''layout'') ''updatemenus'' = JArr ms" by blast
  then obtain lkvs where lkvs: "js_prop fig ''layout'' = JObj lkvs" using updatemenus_is_object by blast
  then obtain fkvs where fkvs: "fig = JObj fkvs" using layout_is_object by blast
  have lay: "js_or (js_prop fig ''layout'') (JObj []) = JObj lkvs" using lkvs by (simp add: js_or_def)
  have men: "js_or (js_prop (JObj lkvs) ''updatemenus'') (JArr []) = JArr ms"
    using ms lkvs by (simp add: js_or_def)
  obtain ms2 where ms2: "for_each (normalize_menu fmt (traceCount_of fig)) ms = Inr ms2"
    and fig': "fig' = js_set fig ''layout'' (js_set (JObj lkvs) ''updatemenus'' (JArr ms2))"
    using assms(1) ms lkvs unfolding normalizeUpdateMenus_def Let_def lay men
    by (auto split: sum.splits if_splits)
  have "ms' = ms2" using assms(2) fig' fkvs by (simp add: map_of_assign)
  then show ?thesis using ms2 by blast
next
  case False
  define layout where "layout = js_or (js_prop fig ''layout'') (JObj [])"
  have no: "\<not> (truthy (js_prop layout ''updatemenus'') \<and> isArray (js_or (js_prop layout ''updatemenus'') (JArr [])))"
  proof
    assume a: "truthy (js_prop layout ''updatemenus'') \<and> isArray (js_or (js_prop layout ''updatemenus'') (JArr []))"
    then obtain ms where ms: "js_prop layout ''updatemenus'' = JArr ms"
      by (cases "js_prop layout ''updatemenus''") (auto simp: js_or_def)
    have "layout = js_prop fig ''layout''"
      using ms unfolding layout_def js_or_def by (auto split: if_splits)
    then show False using ms False by auto
  qed
  have "fig' = fig"
    using assms(1) no unfolding normalizeUpdateMenus_def Let_def layout_def [symmetric]
    by (auto split: sum.splits)
  then show ?thesis using assms(2) False by blast
qed



lemma elems_JArr: "x \<in> set (elems v) \<Longrightarrow> \<exists>xs. v = JArr xs \<and> x \<in> set xs"
  by (cases v) simp_all

lemma not_fragile_pattern: "\<not> fragile_key key \<Longrightarrow> key \<noteq> ''annotations['' @ s @ ''].text''"
  using fragile_key_pattern [of s] by blast

text \<open>
  C7: after the normalization pass, for every menu of the document, every button of the menu
  whose method is \<^verbatim>\<open>update\<close> up to case, and every index \<open>i\<close>, neither the trace-data patch
  nor the layout patch of the button (the first two entries of its \<^verbatim>\<open>args\<close>) has a key
  \<^verbatim>\<open>annotations[i].text\<close>.
\<close>

theorem C7_no_fragile_keys_after_normalization:
  assumes "normalizeUpdateMenus fmt fig = Inr fig'"
    and "menu \<in> set (elems (js_prop (js_prop fig' ''layout'') ''updatemenus''))"
    and "btn \<in> set (elems (js_prop menu ''buttons''))"
    and "js_prop btn ''method'' = JStr m" "js_toLowerCase m = ''update''"
    and "js_prop btn ''args'' = JArr args"
    and "patch \<in> set (take 2 args)"
    and "key \<in> set (patch_keys patch)"
  shows "key \<noteq> ''annotations['' @ show_nat i @ ''].text''"
proof -
  obtain ms' where ms': "js_prop (js_prop fig' ''layout'') ''updatemenus'' = JArr ms'" "menu \<in> set ms'"
    using elems_JArr [OF assms(2)] by blast
  obtain ms where ms: "for_each (normalize_menu fmt (traceCount_of fig)) ms = Inr ms'"
    using normalizeUpdateMenus_menus [OF assms(1) ms'(1)] by blast
  obtain menu0 where menu0: "normalize_menu fmt (traceCount_of fig) menu0 = Inr menu"
    using for_each_Inr [OF ms ms'(2)] by blast
  obtain bs' where bs': "js_prop menu ''buttons'' = JArr bs'" "btn \<in> set bs'"
    using elems_JArr [OF assms(3)] by blast
  obtain bs where bs: "bs' = map (normalize_button fmt (traceCount_of fig)) bs"
    using normalize_menu_buttons [OF menu0 bs'(1)] by blast
  obtain b where b: "btn = normalize_button fmt (traceCount_of fig) b"
    using bs bs'(2) by auto
  have "\<not> fragile_key key"
    using normalize_button_keys [of fmt "traceCount_of fig" b m args patch key] assms(4-8)
    unfolding b by blast
  then show ?thesis by (rule not_fragile_pattern)
qed

theorem C7_no_fragile_keys_after_normalization_witness:
  "normalizeUpdateMenus (\<lambda>q. []) menu_doc = Inr menu_doc_normalized
   \<and> JObj [(''buttons'', JArr [menu_button_normalized])]
       \<in> set (elems (js_prop (js_prop menu_doc_normalized ''layout'') ''updatemenus''))
   \<and> menu_button_normalized
       \<in> set (elems (js_prop (JObj [(''buttons'', JArr [menu_button_normalized])]) ''buttons''))
   \<and> js_prop menu_button_normalized ''method'' = JStr ''Update''
   \<and> js_toLowerCase ''Update'' = ''update''
   \<and> js_prop menu_button_normalized ''args''
       = JArr [JObj [(''y'', JArr [JArr [JNum 1, JNum 2]])], JObj [(''title'', JStr ''t'')]]
   \<and> JObj [(''title'', JStr ''t'')]
       \<in> set (take 2 [JObj [(''y'', JArr [JArr [JNum 1, JNum 2]])], JObj [(''title'', JStr ''t'')]])
   \<and> ''title'' \<in> set (patch_keys (JObj [(''title'', JStr ''t'')]))
   \<and> ''title'' \<noteq> ''annotations['' @ show_nat 1 @ ''].text''"
proof -
  have h1: "normalizeUpdateMenus (\<lambda>q. []) menu_doc = Inr menu_doc_normalized"
    by code_simp
  have h2: "JObj [(''buttons'', JArr [menu_button_normalized])]
       \<in> set (elems (js_prop (js_prop menu_doc_normalized ''layout'') ''updatemenus''))"
    by (simp add: menu_doc_normalized_def)
  have h3: "menu_button_normalized
       \<in> set (elems (js_prop (JObj [(''buttons'', JArr [menu_button_normalized])]) ''buttons''))"
    by simp
  have h4: "js_prop menu_button_normalized ''method'' = JStr ''Update''"
    by (simp add: menu_button_normalized_def)
  have h5: "js_toLowerCase ''Update'' = ''update''"
    by code_simp
  have h6: "js_prop menu_button_normalized ''args''
       = JArr [JObj [(''y'', JArr [JArr [JNum 1, JNum 2]])], JObj [(''title'', JStr ''t'')]]"
    by (simp add: menu_button_normalized_def)
  have h7: "JObj [(''title'', JStr ''t'')]
       \<in> set (take 2 [JObj [(''y'', JArr [JArr [JNum 1, JNum 2]])], JObj [(''title'', JStr ''t'')]])"
    by simp
  have h8: "''title'' \<in> set (patch_keys (JObj [(''title'', JStr ''t'')]))"
    by simp
  show ?thesis
    using h1 h2 h3 h4 h5 h6 h7 h8
      C7_no_fragile_keys_after_normalization [OF h1 h2 h3 h4 h5 h6 h7 h8, of 1]
    by blast
qed

section \<open>Running the normalization pass twice\<close>

lemma normalizePerTraceValue_idem_sequence:
  assumes "1 \<le> n" "isArray v \<or> v = JNull \<or> v = JUndefined"
  shows "normalizePerTraceValue (normalizePerTraceValue v n) n = normalizePerTraceValue v n"
proof (cases v)
  case (JArr xs)
  show ?thesis
  proof (cases xs)
    case Nil
    then show ?thesis using JArr assms(1) by (auto simp: normalizePerTraceValue_def)
  next
    case (Cons x ys)
    then show ?thesis using JArr assms(1)
      by (cases "isArray x") (auto simp: normalizePerTraceValue_def)
  qed
qed (use assms(2) in \<open>simp_all add: normalizePerTraceValue_def\<close>)

text \<open>
  C4: the pass is not idempotent on a scalar payload. With one trace the scalar 5 becomes
  \<^verbatim>\<open>[5]\<close>, and a second application wraps it again to \<^verbatim>\<open>[[5]]\<close>; a document whose update
  button patches \<^verbatim>\<open>y\<close> with 5 is changed by the first pass and changed again by the second.
\<close>

theorem C4_second_pass_rewraps_scalar:
  "normalizePerTraceValue (JNum 5) 1 = JArr [JNum 5]
   \<and> normalizePerTraceValue (normalizePerTraceValue (JNum 5) 1) 1 = JArr [JArr [JNum 5]]
   \<and> normalizeUpdateMenus (\<lambda>q. []) (scalar_doc (JNum 5)) = Inr (scalar_doc (JArr [JNum 5]))
   \<and> normalizeUpdateMenus (\<lambda>q. []) (scalar_doc (JArr [JNum 5]))
       = Inr (scalar_doc (JArr [JArr [JNum 5]]))
   \<and> scalar_doc (JArr [JArr [JNum 5]]) \<noteq> scalar_doc (JArr [JNum 5])"
proof (intro conjI)
  show "normalizePerTraceValue (JNum 5) 1 = JArr [JNum 5]"
    by (simp add: normalizePerTraceValue_def)
  show "normalizePerTraceValue (normalizePerTraceValue (JNum 5) 1) 1 = JArr [JArr [JNum 5]]"
    by (simp add: normalizePerTraceValue_def)
  show "normalizeUpdateMenus (\<lambda>q. []) (scalar_doc (JNum 5)) = Inr (scalar_doc (JArr [JNum 5]))"
    by code_simp
  show "normalizeUpdateMenus (\<lambda>q. []) (scalar_doc (JArr [JNum 5]))
       = Inr (scalar_doc (JArr [JArr [JNum 5]]))"
    by code_simp
  show "scalar_doc (JArr [JArr [JNum 5]]) \<noteq> scalar_doc (JArr [JNum 5])"
    by (simp add: scalar_doc_def)
qed

section \<open>Properties of the click handler\<close>

lemma build_update_eq:
  "build_update payload = JObj (map (\<lambda>k. (k, JArr [linked_value payload k])) (present_keys payload))"
  by (simp add: build_update_def present_keys_def TRACE_KEYS_def)

lemma patch_keys_build_update: "patch_keys (build_update payload) = present_keys payload"
  by (simp add: build_update_eq comp_def)

lemma click_off_source:
  "\<not> truthy (click_point ev) \<or> js_prop (click_point ev) ''curveNumber'' \<noteq> sourceTrace cfg
   \<Longrightarrow> plotly_click fmt cfg g ev = []"
  by (auto simp: plotly_click_def Let_def)

lemma click_unresolved:
  "\<not> (truthy (resolve_payload cfg (activeSeason fmt cfg g) (click_label fmt ev))
       \<and> is_object (resolve_payload cfg (activeSeason fmt cfg g) (click_label fmt ev)))
   \<Longrightarrow> plotly_click fmt cfg g ev = []"
  by (auto simp: plotly_click_def Let_def)

lemma click_empty_patch:
  "present_keys (resolve_payload cfg (activeSeason fmt cfg g) (click_label fmt ev)) = []
   \<Longrightarrow> plotly_click fmt cfg g ev = []"
  by (simp add: plotly_click_def Let_def patch_keys_build_update)

lemma click_applied:
  assumes "truthy (click_point ev)" "js_prop (click_point ev) ''curveNumber'' = sourceTrace cfg"
    and "payload = resolve_payload cfg (activeSeason fmt cfg g) (click_label fmt ev)"
    and "truthy payload" "is_object payload" "present_keys payload \<noteq> []"
  shows "plotly_click fmt cfg g ev =
           axis_relayout fmt cfg g payload
           @ [Restyle (JObj (map (\<lambda>k. (k, JArr [linked_value payload k])) (present_keys payload)))
                      (JArr [targetTrace cfg])]
           @ title_relayout fmt cfg g payload"
  using assms by (simp add: plotly_click_def Let_def patch_keys_build_update build_update_eq)

lemma resolve_composite:
  "js_prop (lookup cfg) (S @ ''||'' @ L) = JObj p \<Longrightarrow> resolve_payload cfg S L = JObj p"
  by (simp add: resolve_payload_def combinedKey_def js_or_def)

lemma resolve_bare:
  "js_prop (lookup cfg) (S @ ''||'' @ L) = JUndefined \<Longrightarrow> resolve_payload cfg S L = js_prop (lookup cfg) L"
  by (simp add: resolve_payload_def combinedKey_def js_or_def)

lemma activeSeason_default:
  "\<not> truthy (season_menu fmt cfg g) \<or> \<not> isArray (js_prop (season_menu fmt cfg g) ''buttons'')
   \<or> \<not> truthy (active_button fmt (season_menu fmt cfg g))
   \<or> js_prop (active_button fmt (season_menu fmt cfg g)) ''label'' = JNull
   \<or> js_prop (active_button fmt (season_menu fmt cfg g)) ''label'' = JUndefined
   \<Longrightarrow> activeSeason fmt cfg g = defaultSeason cfg"
  by (auto simp: activeSeason_def Let_def)

lemma activeSeason_label:
  "truthy (season_menu fmt cfg g) \<Longrightarrow> isArray (js_prop (season_menu fmt cfg g) ''buttons'')
   \<Longrightarrow> truthy (active_button fmt (season_menu fmt cfg g))
   \<Longrightarrow> js_prop (active_button fmt (season_menu fmt cfg g)) ''label'' \<noteq> JNull
   \<Longrightarrow> js_prop (active_button fmt (season_menu fmt cfg g)) ''label'' \<noteq> JUndefined
   \<Longrightarrow> activeSeason fmt cfg g = js_String fmt (js_prop (active_button fmt (season_menu fmt cfg g)) ''label'')"
  by (auto simp: activeSeason_def Let_def)

lemma linked_value_customdata: "linked_value payload ''customdata'' = js_prop payload ''customdata''"
  by (simp add: linked_value_def)

lemma linked_value_nested:
  "k \<noteq> ''customdata'' \<Longrightarrow> js_prop payload k = JArr [JArr xs] \<Longrightarrow> linked_value payload k = JArr xs"
  by (simp add: linked_value_def normalizeLinkedSeries_def)

lemma linked_value_other:
  "k \<noteq> ''customdata'' \<Longrightarrow> \<not> (\<exists>xs. js_prop payload k = JArr [JArr xs]) \<Longrightarrow> linked_value payload k = js_prop payload k"
  apply (simp add: linked_value_def normalizeLinkedSeries_def)
  apply (cases "js_prop payload k"; simp)
  subgoal for ys by (cases ys; cases "hd ys"; auto)
  done

lemma show_int_small: "show_int 0 = ''0''" "show_int 1 = ''1''"
  by (simp_all add: show_int_def show_nat.simps)

lemma title_relayout_inferred:
  assumes "\<not> isInteger (js_prop (meta cfg) ''target_title_annotation_index'')"
    and "truthy (js_prop payload ''title'')"
  shows "title_relayout fmt cfg g payload =
     [Relayout (JObj [(if js_len (annotations_of g) \<ge> 2 then ''annotations[1].text''
                      else if js_len (annotations_of g) = 1 then ''annotations[0].text''
                      else ''title'',
                      JStr (js_String fmt (js_prop payload ''title'')))])]"
proof -
  have idx: "title_index cfg (annotations_of g) = (if js_len (annotations_of g) > 1 then 1 else 0)"
    using assms(1) by (cases "js_prop (meta cfg) ''target_title_annotation_index''") (auto simp: title_index_def)
  show ?thesis using assms(2)
    by (auto simp: title_relayout_def Let_def idx show_int_small)
qed


text \<open>
  C2, as stated, fails for a payload that resolves but carries none of the four trace keys:
  the claim has a restyle applied whenever a key resolves, the handler returns before any
  library call (\<^verbatim>\<open>if(Object.keys(update).length===0) return;\<close>).
\<close>

theorem C2_title_only_payload_counterexample:
  "setupLinkedInteraction (\<lambda>q. []) (mi_fig (JObj [(''title'', JStr ''MI 2020'')]))
     = Some (mi_cfg (JObj [(''title'', JStr ''MI 2020'')]))
   \<and> js_prop (click_point (mi_click 0)) ''curveNumber''
       = sourceTrace (mi_cfg (JObj [(''title'', JStr ''MI 2020'')]))
   \<and> resolve_payload (mi_cfg (JObj [(''title'', JStr ''MI 2020'')]))
        (activeSeason (\<lambda>q. []) (mi_cfg (JObj [(''title'', JStr ''MI 2020'')])) (mi_gd ''2020'' []))
        (click_label (\<lambda>q. []) (mi_click 0))
       = JObj [(''title'', JStr ''MI 2020'')]
   \<and> plotly_click (\<lambda>q. []) (mi_cfg (JObj [(''title'', JStr ''MI 2020'')])) (mi_gd ''2020'' [])
        (mi_click 0) = []"
  by code_simp

text \<open>
  C2 (amended): a click off the source trace is ignored; the season is the label of the
  active button of the configured menu, or the default season when the menu, its buttons,
  the button or the label is missing; the payload is the entry under
  \<^verbatim>\<open>season||label\<close> when that entry is a mapping, and the entry under the bare label when
  the composite key is absent; when no mapping is resolved, or the resolved payload has none
  of the keys x, y, text, customdata, no library call is made; otherwise exactly one restyle
  is made, on the target trace only, whose patch maps each present key to \<^verbatim>\<open>[v]\<close>, with a
  single-nested array unwrapped for the keys other than customdata.
\<close>

theorem C2_linked_click:
  "(\<not> truthy (click_point ev) \<or> js_prop (click_point ev) ''curveNumber'' \<noteq> sourceTrace cfg
      \<longrightarrow> plotly_click fmt cfg g ev = [])
   \<and> (\<not> truthy (season_menu fmt cfg g) \<or> \<not> isArray (js_prop (season_menu fmt cfg g) ''buttons'')
       \<or> \<not> truthy (active_button fmt (season_menu fmt cfg g))
       \<or> js_prop (active_button fmt (season_menu fmt cfg g)) ''label'' = JNull
       \<or> js_prop (active_button fmt (season_menu fmt cfg g)) ''label'' = JUndefined
      \<longrightarrow> activeSeason fmt cfg g = defaultSeason cfg)
   \<and> (truthy (season_menu fmt cfg g) \<and> isArray (js_prop (season_menu fmt cfg g) ''buttons'')
       \<and> truthy (active_button fmt (season_menu fmt cfg g))
       \<and> js_prop (active_button fmt (season_menu fmt cfg g)) ''label'' \<noteq> JNull
       \<and> js_prop (active_button fmt (season_menu fmt cfg g)) ''label'' \<noteq> JUndefined
      \<longrightarrow> activeSeason fmt cfg g
           = js_String fmt (js_prop (active_button fmt (season_menu fmt cfg g)) ''label''))
   \<and> (js_prop (lookup cfg) (S @ ''||'' @ L) = JObj p \<longrightarrow> resolve_payload cfg S L = JObj p)
   \<and> (js_prop (lookup cfg) (S @ ''||'' @ L) = JUndefined
      \<longrightarrow> resolve_payload cfg S L = js_prop (lookup cfg) L)
   \<and> (\<not> (truthy (resolve_payload cfg (activeSeason fmt cfg g) (click_label fmt ev))
           \<and> is_object (resolve_payload cfg (activeSeason fmt cfg g) (click_label fmt ev)))
      \<longrightarrow> plotly_click fmt cfg g ev = [])
   \<and> (present_keys (resolve_payload cfg (activeSeason fmt cfg g) (click_label fmt ev)) = []
      \<longrightarrow> plotly_click fmt cfg g ev = [])
   \<and> (truthy (click_point ev) \<and> js_prop (click_point ev) ''curveNumber'' = sourceTrace cfg
       \<and> payload = resolve_payload cfg (activeSeason fmt cfg g) (click_label fmt ev)
       \<and> truthy payload \<and> is_object payload \<and> present_keys payload \<noteq> []
      \<longrightarrow> plotly_click fmt cfg g ev =
           axis_relayout fmt cfg g payload
           @ [Restyle (JObj (map (\<lambda>k. (k, JArr [linked_value payload k])) (present_keys payload)))
                      (JArr [targetTrace cfg])]
           @ title_relayout fmt cfg g payload)
   \<and> linked_value v ''customdata'' = js_prop v ''customdata''
   \<and> (k \<noteq> ''customdata'' \<and> js_prop v k = JArr [JArr xs] \<longrightarrow> linked_value v k = JArr xs)
   \<and> (k \<noteq> ''customdata'' \<and> \<not> (\<exists>ys. js_prop v k = JArr [JArr ys])
      \<longrightarrow> linked_value v k = js_prop v k)"
proof (intro conjI impI)
  assume "\<not> truthy (click_point ev) \<or> js_prop (click_point ev) ''curveNumber'' \<noteq> sourceTrace cfg"
  then show "plotly_click fmt cfg g ev = []" by (rule click_off_source)
next
  assume "\<not> truthy (season_menu fmt cfg g) \<or> \<not> isArray (js_prop (season_menu fmt cfg g) ''buttons'')
       \<or> \<not> truthy (active_button fmt (season_menu fmt cfg g))
       \<or> js_prop (active_button fmt (season_menu fmt cfg g)) ''label'' = JNull
       \<or> js_prop (active_button fmt (season_menu fmt cfg g)) ''label'' = JUndefined"
  then show "activeSeason fmt cfg g = defaultSeason cfg" by (rule activeSeason_default)
next
  assume "truthy (season_menu fmt cfg g) \<and> isArray (js_prop (season_menu fmt cfg g) ''buttons'')
       \<and> truthy (active_button fmt (season_menu fmt cfg g))
       \<and> js_prop (active_button fmt (season_menu fmt cfg g)) ''label'' \<noteq> JNull
       \<and> js_prop (active_button fmt (season_menu fmt cfg g)) ''label'' \<noteq> JUndefined"
  then show "activeSeason fmt cfg g
           = js_String fmt (js_prop (active_button fmt (season_menu fmt cfg g)) ''label'')"
    using activeSeason_label by blast
next
  assume "js_prop (lookup cfg) (S @ ''||'' @ L) = JObj p"
  then show "resolve_payload cfg S L = JObj p" by (rule resolve_composite)
next
  assume "js_prop (lookup cfg) (S @ ''||'' @ L) = JUndefined"
  then show "resolve_payload cfg S L = js_prop (lookup cfg) L" by (rule resolve_bare)
next
  assume "\<not> (truthy (resolve_payload cfg (activeSeason fmt cfg g) (click_label fmt ev))
           \<and> is_object (resolve_payload cfg (activeSeason fmt cfg g) (click_label fmt ev)))"
  then show "plotly_click fmt cfg g ev = []" by (rule click_unresolved)
next
  assume "present_keys (resolve_payload cfg (activeSeason fmt cfg g) (click_label fmt ev)) = []"
  then show "plotly_click fmt cfg g ev = []" by (rule click_empty_patch)
next
  assume "truthy (click_point ev) \<and> js_prop (click_point ev) ''curveNumber'' = sourceTrace cfg
       \<and> payload = resolve_payload cfg (activeSeason fmt cfg g) (click_label fmt ev)
       \<and> truthy payload \<and> is_object payload \<and> present_keys payload \<noteq> []"
  then show "plotly_click fmt cfg g ev =
           axis_relayout fmt cfg g payload
           @ [Restyle (JObj (map (\<lambda>k. (k, JArr [linked_value payload k])) (present_keys payload)))
                      (JArr [targetTrace cfg])]
           @ title_relayout fmt cfg g payload"
    using click_applied by blast
next
  show "linked_value v ''customdata'' = js_prop v ''customdata''"
    by (rule linked_value_customdata)
next
  assume "k \<noteq> ''customdata'' \<and> js_prop v k = JArr [JArr xs]"
  then show "linked_value v k = JArr xs" using linked_value_nested by blast
next
  assume "k \<noteq> ''customdata'' \<and> \<not> (\<exists>ys. js_prop v k = JArr [JArr ys])"
  then show "linked_value v k = js_prop v k" using linked_value_other by blast
qed


theorem C2_linked_click_witness:
  "truthy (click_point (mi_click 0))
   \<and> js_prop (click_point (mi_click 0)) ''curveNumber'' = sourceTrace (mi_cfg mi_payload)
   \<and> activeSeason (\<lambda>q. []) (mi_cfg mi_payload) (mi_gd ''2020'' [JObj [], JObj []]) = ''2020''
   \<and> click_label (\<lambda>q. []) (mi_click 0) = ''MI''
   \<and> js_prop (lookup (mi_cfg mi_payload)) (''2020'' @ ''||'' @ ''MI'') = mi_payload
   \<and> truthy mi_payload \<and> is_object mi_payload \<and> present_keys mi_payload \<noteq> []
   \<and> plotly_click (\<lambda>q. []) (mi_cfg mi_payload) (mi_gd ''2020'' [JObj [], JObj []]) (mi_click 0)
       = [Restyle (JObj [(''y'', JArr [JArr [JNum 10, JNum 20]])]) (JArr [JNum 1]),
          Relayout (JObj [(''annotations[1].text'', JStr ''MI 2020'')])]
   \<and> js_prop (click_point (mi_click 1)) ''curveNumber'' \<noteq> sourceTrace (mi_cfg mi_payload)
   \<and> plotly_click (\<lambda>q. []) (mi_cfg mi_payload) (mi_gd ''2020'' [JObj [], JObj []]) (mi_click 1) = []
   \<and> resolve_payload (mi_cfg mi_payload)
        (activeSeason (\<lambda>q. []) (mi_cfg mi_payload) (mi_gd ''2019'' [JObj [], JObj []]))
        (click_label (\<lambda>q. []) (mi_click 0)) = JUndefined
   \<and> plotly_click (\<lambda>q. []) (mi_cfg mi_payload) (mi_gd ''2019'' [JObj [], JObj []]) (mi_click 0) = []"
proof -
  let ?cfg = "mi_cfg mi_payload" and ?g = "mi_gd ''2020'' [JObj [], JObj []]" and ?ev = "mi_click 0"
  let ?g' = "mi_gd ''2019'' [JObj [], JObj []]"
  let ?F = "\<lambda>q::rat. []::string"
  have h1: "truthy (click_point ?ev)" by code_simp
  have h2: "js_prop (click_point ?ev) ''curveNumber'' = sourceTrace ?cfg" by code_simp
  have h3: "activeSeason ?F ?cfg ?g = ''2020''" by code_simp
  have h4: "click_label ?F ?ev = ''MI''" by code_simp
  have h5: "js_prop (lookup ?cfg) (''2020'' @ ''||'' @ ''MI'') = mi_payload" by code_simp
  have h6: "mi_payload = resolve_payload ?cfg (activeSeason ?F ?cfg ?g) (click_label ?F ?ev)"
    by code_simp
  have h7: "truthy mi_payload" "is_object mi_payload" by code_simp+
  have h8: "present_keys mi_payload \<noteq> []" by code_simp
  have r1: "axis_relayout ?F ?cfg ?g mi_payload = []" by code_simp
  have r2: "map (\<lambda>k. (k, JArr [linked_value mi_payload k])) (present_keys mi_payload)
            = [(''y'', JArr [JArr [JNum 10, JNum 20]])]" by code_simp
  have r3: "title_relayout ?F ?cfg ?g mi_payload
            = [Relayout (JObj [(''annotations[1].text'', JStr ''MI 2020'')])]" by code_simp
  have r4: "targetTrace ?cfg = JNum 1" by code_simp
  from C2_linked_click [of ?ev ?cfg ?F ?g "''2020''" "''MI''" "[]" mi_payload mi_payload "''y''" "[]"]
  have "plotly_click ?F ?cfg ?g ?ev =
           axis_relayout ?F ?cfg ?g mi_payload
           @ [Restyle (JObj (map (\<lambda>k. (k, JArr [linked_value mi_payload k])) (present_keys mi_payload)))
                      (JArr [targetTrace ?cfg])]
           @ title_relayout ?F ?cfg ?g mi_payload"
    using h1 h2 h6 h7 h8 by blast
  then have A: "plotly_click ?F ?cfg ?g ?ev
       = [Restyle (JObj [(''y'', JArr [JArr [JNum 10, JNum 20]])]) (JArr [JNum 1]),
          Relayout (JObj [(''annotations[1].text'', JStr ''MI 2020'')])]"
    unfolding r1 r2 r3 r4 by simp
  have k1: "js_prop (click_point (mi_click 1)) ''curveNumber'' \<noteq> sourceTrace ?cfg" by code_simp
  from C2_linked_click [of "mi_click 1" ?cfg ?F ?g "''2020''" "''MI''" "[]" mi_payload mi_payload "''y''" "[]"]
  have B: "plotly_click ?F ?cfg ?g (mi_click 1) = []" using k1 by blast
  have k2: "resolve_payload ?cfg (activeSeason ?F ?cfg ?g') (click_label ?F ?ev) = JUndefined"
    by code_simp
  have k3: "\<not> (truthy (resolve_payload ?cfg (activeSeason ?F ?cfg ?g') (click_label ?F ?ev))
           \<and> is_object (resolve_payload ?cfg (activeSeason ?F ?cfg ?g') (click_label ?F ?ev)))"
    unfolding k2 by simp
  from C2_linked_click [of ?ev ?cfg ?F ?g' "''2019''" "''MI''" "[]" mi_payload mi_payload "''y''" "[]"]
  have C: "plotly_click ?F ?cfg ?g' ?ev = []" using k3 by blast
  show ?thesis using h1 h2 h3 h4 h5 h7 h8 A k1 B k2 C by blast
qed

text \<open>
  C6, as stated, fails with three annotations: the claim names the first annotation, the
  handler patches \<^verbatim>\<open>annotations[1].text\<close>.
\<close>

theorem C6_three_annotations_counterexample:
  "js_len (annotations_of (mi_gd ''2020'' [JObj [], JObj [], JObj []])) = 3
   \<and> title_index_spec 3 = 0
   \<and> title_index (mi_cfg mi_payload) (annotations_of (mi_gd ''2020'' [JObj [], JObj [], JObj []])) = 1
   \<and> plotly_click (\<lambda>q. []) (mi_cfg mi_payload) (mi_gd ''2020'' [JObj [], JObj [], JObj []]) (mi_click 0)
       = [Restyle (JObj [(''y'', JArr [JArr [JNum 10, JNum 20]])]) (JArr [JNum 1]),
          Relayout (JObj [(''annotations[1].text'', JStr ''MI 2020'')])]"
  by code_simp

text \<open>
  C6 (amended): for an applied click payload with a title and no configured annotation
  index, the handler patches the text of the second annotation when two or more annotations
  exist, of the first when exactly one exists, and the chart title when none exists.
\<close>

theorem C6_title_annotation_choice:
  assumes "truthy (click_point ev)" "js_prop (click_point ev) ''curveNumber'' = sourceTrace cfg"
    and "payload = resolve_payload cfg (activeSeason fmt cfg g) (click_label fmt ev)"
    and "truthy payload" "is_object payload" "present_keys payload \<noteq> []"
    and "truthy (js_prop payload ''title'')"
    and "\<not> isInteger (js_prop (meta cfg) ''target_title_annotation_index'')"
  shows "plotly_click fmt cfg g ev =
           axis_relayout fmt cfg g payload
           @ [Restyle (build_update payload) (JArr [targetTrace cfg])]
           @ [Relayout (JObj [(if js_len (annotations_of g) \<ge> 2 then ''annotations[1].text''
                               else if js_len (annotations_of g) = 1 then ''annotations[0].text''
                               else ''title'',
                               JStr (js_String fmt (js_prop payload ''title'')))])]"
  using click_applied [OF assms(1-6)] title_relayout_inferred [OF assms(8,7), of fmt g]
  unfolding build_update_eq by simp

theorem C6_title_annotation_choice_witness:
  "truthy (click_point (mi_click 0))
   \<and> js_prop (click_point (mi_click 0)) ''curveNumber'' = sourceTrace (mi_cfg mi_payload)
   \<and> mi_payload = resolve_payload (mi_cfg mi_payload)
        (activeSeason (\<lambda>q. []) (mi_cfg mi_payload) (mi_gd ''2020'' [JObj []]))
        (click_label (\<lambda>q. []) (mi_click 0))
   \<and> truthy mi_payload \<and> is_object mi_payload \<and> present_keys mi_payload \<noteq> []
   \<and> truthy (js_prop mi_payload ''title'')
   \<and> \<not> isInteger (js_prop (meta (mi_cfg mi_payload)) ''target_title_annotation_index'')
   \<and> plotly_click (\<lambda>q. []) (mi_cfg mi_payload) (mi_gd ''2020'' [JObj []]) (mi_click 0)
       = [Restyle (JObj [(''y'', JArr [JArr [JNum 10, JNum 20]])]) (JArr [JNum 1]),
          Relayout (JObj [(''annotations[0].text'', JStr ''MI 2020'')])]"
proof -
  let ?cfg = "mi_cfg mi_payload" and ?g = "mi_gd ''2020'' [JObj []]" and ?ev = "mi_click 0"
  let ?F = "\<lambda>q::rat. []::string"
  have h1: "truthy (click_point ?ev)" by code_simp
  have h2: "js_prop (click_point ?ev) ''curveNumber'' = sourceTrace ?cfg" by code_simp
  have h3: "mi_payload = resolve_payload ?cfg (activeSeason ?F ?cfg ?g) (click_label ?F ?ev)"
    by code_simp
  have h4: "truthy mi_payload" by code_simp
  have h5: "is_object mi_payload" by code_simp
  have h6: "present_keys mi_payload \<noteq> []" by code_simp
  have h7: "truthy (js_prop mi_payload ''title'')" by code_simp
  have h8: "\<not> isInteger (js_prop (meta ?cfg) ''target_title_annotation_index'')" by code_simp
  have r1: "axis_relayout ?F ?cfg ?g mi_payload = []" by code_simp
  have r2: "build_update mi_payload = JObj [(''y'', JArr [JArr [JNum 10, JNum 20]])]" by code_simp
  have r3: "js_len (annotations_of ?g) = 1" by code_simp
  have r4: "targetTrace ?cfg = JNum 1" by code_simp
  have r5: "js_String ?F (js_prop mi_payload ''title'') = ''MI 2020''" by code_simp
  have "plotly_click ?F ?cfg ?g ?ev
       = [Restyle (JObj [(''y'', JArr [JArr [JNum 10, JNum 20]])]) (JArr [JNum 1]),
          Relayout (JObj [(''annotations[0].text'', JStr ''MI 2020'')])]"
    using C6_title_annotation_choice [OF h1 h2 h3 h4 h5 h6 h7 h8]
    unfolding r1 r2 r3 r4 r5 by simp
  then show ?thesis using h1 h2 h3 h4 h5 h6 h7 h8 by blast
qed

section \<open>Properties of the sizing controller\<close>

lemma map_of_map_snd: "map_of (map (\<lambda>p. (fst p, f (snd p))) kvs) k = map_option f (map_of kvs k)"
  by (induction kvs) auto

lemma js_prop_to_js:
  "js_prop (to_js (PDict kvs)) k = (case map_of kvs k of Some v \<Rightarrow> to_js v | None \<Rightarrow> JUndefined)"
  by (simp add: map_of_map_snd split: option.splits)

lemma dict_get_Some: "dict_get kvs k = PDict d \<Longrightarrow> map_of kvs k = Some (PDict d)"
  by (auto simp: dict_get_def split: option.splits)

lemma prepare_page_explicit:
  assumes "fig_json = PDict kvs" "dict_get kvs ''layout'' = PDict layout"
    and "is_int_or_float (dict_get layout ''height'')"
  shows "prepare_page fig_json = Inr \<lparr> page_fig = to_js fig_json, page_explicitHeight = True,
           page_defaultHeight = py_int (dict_get layout ''height'') \<rparr>"
proof -
  have "layout \<noteq> []" using assms(3) by (auto simp: dict_get_def)
  then have "py_or (dict_get kvs ''layout'') (PDict []) = PDict layout"
    using assms(2) by (simp add: py_or_def)
  then show ?thesis using assms by (simp add: prepare_page_def)
qed

lemma prepare_page_explicit_iff:
  assumes "prepare_page fig_json = Inr pg"
  shows "page_explicitHeight pg \<longleftrightarrow>
         (\<exists>kvs layout. fig_json = PDict kvs \<and> dict_get kvs ''layout'' = PDict layout
                        \<and> is_int_or_float (dict_get layout ''height''))"
proof
  assume e: "page_explicitHeight pg"
  from assms obtain kvs where kvs: "fig_json = PDict kvs"
    by (cases fig_json) (auto simp: prepare_page_def)
  from assms kvs obtain layout where layout: "py_or (dict_get kvs ''layout'') (PDict []) = PDict layout"
    by (cases "py_or (dict_get kvs ''layout'') (PDict [])") (auto simp: prepare_page_def)
  have num: "is_int_or_float (dict_get layout ''height'')"
    using assms kvs layout e
    by (auto simp: prepare_page_def Let_def split: if_splits pyval.splits)
  then have "layout \<noteq> []" by (auto simp: dict_get_def)
  then have "dict_get kvs ''layout'' = PDict layout"
    using layout by (auto simp: py_or_def split: if_splits)
  then show "\<exists>kvs layout. fig_json = PDict kvs \<and> dict_get kvs ''layout'' = PDict layout
                        \<and> is_int_or_float (dict_get layout ''height'')"
    using kvs num by blast
next
  assume "\<exists>kvs layout. fig_json = PDict kvs \<and> dict_get kvs ''layout'' = PDict layout
                        \<and> is_int_or_float (dict_get layout ''height'')"
  then show "page_explicitHeight pg"
    using prepare_page_explicit assms by fastforce
qed

lemma mobileHeight_explicit: "page_explicitHeight pg \<Longrightarrow> mobileHeight pg w = page_defaultHeight pg"
  by (simp add: mobileHeight_def)

lemma js_round_mono: "x \<le> y \<Longrightarrow> js_round x \<le> js_round y"
  by (simp add: js_round_def floor_mono)

lemma mobileHeight_bounds:
  "\<not> page_explicitHeight pg \<Longrightarrow> 280 \<le> mobileHeight pg w \<and> mobileHeight pg w \<le> 560"
  by (simp add: mobileHeight_def Let_def)

lemma clamp_int_mono: "a \<le> b \<Longrightarrow> max lo (min hi a) \<le> max lo (min hi (b::int))"
  by auto

lemma mobileHeight_responsive:
  "\<not> page_explicitHeight pg \<Longrightarrow> w \<noteq> 0 \<Longrightarrow>
   mobileHeight pg w = max 280 (min 560 (js_round (of_int (max 280 (min w 1400)) * (6 / 10))))"
  by (simp add: mobileHeight_def Let_def)

lemma mobileHeight_mono:
  assumes "\<not> page_explicitHeight pg" "w1 \<le> w2" "w1 \<noteq> 0" "w2 \<noteq> 0"
  shows "mobileHeight pg w1 \<le> mobileHeight pg w2"
proof -
  have "max 280 (min 1400 w1) \<le> max 280 (min 1400 w2)" using assms(2) by (rule clamp_int_mono)
  then have "max 280 (min w1 1400) \<le> max 280 (min w2 1400)" by (simp add: min.commute)
  then have "(of_int (max 280 (min w1 1400)) :: rat) * (6 / 10) \<le> of_int (max 280 (min w2 1400)) * (6 / 10)"
    by (simp only: of_int_le_iff mult_le_cancel_right) simp
  then have "js_round (of_int (max 280 (min w1 1400)) * (6 / 10))
             \<le> js_round (of_int (max 280 (min w2 1400)) * (6 / 10))"
    by (rule js_round_mono)
  then have "max 280 (min 560 (js_round (of_int (max 280 (min w1 1400)) * (6 / 10))))
             \<le> max 280 (min 560 (js_round (of_int (max 280 (min w2 1400)) * (6 / 10))))"
    by (rule clamp_int_mono)
  then show ?thesis
    unfolding mobileHeight_responsive [OF assms(1,3)] mobileHeight_responsive [OF assms(1,4)] .
qed

lemma mobileHeight_spec:
  assumes "\<not> page_explicitHeight pg"
  shows "of_int (mobileHeight pg w) = computed_height_spec None (if w = 0 then 1024 else w)"
proof -
  have c: "\<And>x :: int. clamp 280 1400 (of_int x) = of_int (max 280 (min 1400 x))"
    by (simp add: clamp_def)
  have d: "\<And>x :: int. clamp 280 560 (of_int x) = of_int (max 280 (min 560 x))"
    by (simp add: clamp_def)
  show ?thesis using assms
    by (simp add: mobileHeight_def computed_height_spec_def c d Let_def min.commute mult.commute del: of_int_max of_int_min)
qed


lemma normalizeUpdateMenus_shape:
  assumes "js_prop doc ''layout'' = JObj l" "normalizeUpdateMenus fmt doc = Inr doc1"
  shows "\<exists>l1. js_prop doc1 ''layout'' = JObj l1"
proof -
  obtain kvs where kvs: "doc = JObj kvs" using assms(1) layout_is_object by blast
  have lay: "js_or (js_prop doc ''layout'') (JObj []) = JObj l" using assms(1) by (simp add: js_or_def)
  show ?thesis
    using assms(2) assms(1) unfolding normalizeUpdateMenus_def Let_def lay kvs
    by (auto split: sum.splits if_splits simp: map_of_assign js_or_def)
qed

lemma render_layout:
  assumes "js_prop doc ''layout'' = JObj l" "render fmt pg w doc = Inr doc'"
  shows "\<exists>l'. js_prop doc' ''layout'' = JObj l'
              \<and> js_prop (JObj l') ''height'' = JNum (of_int (mobileHeight pg w))
              \<and> js_prop (JObj l') ''width'' = JNull
              \<and> js_prop (JObj l') ''autosize'' = JBool True"
proof -
  from assms(2) obtain doc1 where doc1: "normalizeUpdateMenus fmt doc = Inr doc1"
    by (auto simp: render_def split: sum.splits)
  then obtain l1 where l1: "js_prop doc1 ''layout'' = JObj l1"
    using normalizeUpdateMenus_shape [OF assms(1)] by blast
  then obtain kvs1 where kvs1: "doc1 = JObj kvs1" using layout_is_object by blast
  have lay: "js_or (js_prop doc1 ''layout'') (JObj []) = JObj l1" using l1 by (simp add: js_or_def)
  have "doc' = js_set doc1 ''layout''
          (js_set (js_set (js_set (JObj l1) ''autosize'' (JBool True)) ''width'' JNull)
             ''height'' (JNum (of_int (mobileHeight pg w))))"
    using assms(2) doc1 by (simp add: render_def Let_def lay)
  then show ?thesis using kvs1 by (simp add: map_of_assign)
qed

lemma prepare_page_responsive_layout:
  assumes "prepare_page fig_json = Inr pg" "\<not> page_explicitHeight pg"
  shows "js_prop (js_prop (page_fig pg) ''layout'') ''autosize'' = JBool True
         \<and> js_prop (js_prop (page_fig pg) ''layout'') ''width'' = JUndefined"
proof -
  from assms(1) obtain kvs where kvs: "fig_json = PDict kvs"
    by (cases fig_json) (auto simp: prepare_page_def)
  from assms(1) kvs obtain layout where layout: "py_or (dict_get kvs ''layout'') (PDict []) = PDict layout"
    by (cases "py_or (dict_get kvs ''layout'') (PDict [])") (auto simp: prepare_page_def)
  have ne: "\<not> is_int_or_float (dict_get layout ''height'')"
    using assms kvs layout by (auto simp: prepare_page_def Let_def split: if_splits)
  from assms(1) kvs layout ne obtain l1
    where l1: "dict_get (setdefault kvs ''layout'' (PDict [])) ''layout'' = PDict l1"
    by (cases "dict_get (setdefault kvs ''layout'' (PDict [])) ''layout''")
       (auto simp: prepare_page_def Let_def)
  have pg: "page_fig pg = to_js (PDict (assign ''layout''
              (PDict (dict_pop ''width'' (assign ''autosize'' (PBool True) l1)))
              (setdefault kvs ''layout'' (PDict []))))"
    using assms(1) kvs layout ne l1 by (auto simp: prepare_page_def Let_def)
  have w: "map_of (dict_pop ''width'' xs) ''width'' = None" for xs :: "(string \<times> pyval) list"
    by (induction xs) (auto simp: dict_pop_def)
  have a: "map_of (dict_pop ''width'' xs) ''autosize'' = map_of xs ''autosize''" for xs :: "(string \<times> pyval) list"
    by (induction xs) (auto simp: dict_pop_def)
  show ?thesis unfolding pg
    by (simp add: js_prop_to_js map_of_assign map_of_map_snd w a del: to_js.simps(7))
qed


lemma prepare_page_layout_object:
  assumes "prepare_page fig_json = Inr pg"
  shows "\<exists>l. js_prop (page_fig pg) ''layout'' = JObj l"
proof (cases "page_explicitHeight pg")
  case True
  then obtain kvs layout where k: "fig_json = PDict kvs" "dict_get kvs ''layout'' = PDict layout"
      "is_int_or_float (dict_get layout ''height'')"
    using prepare_page_explicit_iff [OF assms] by blast
  then have "page_fig pg = to_js (PDict kvs)"
    using prepare_page_explicit [OF k] assms by auto
  then show ?thesis using dict_get_Some [OF k(2)] by (simp add: map_of_map_snd)
next
  case False
  have "js_prop (js_prop (page_fig pg) ''layout'') ''autosize'' = JBool True"
    using prepare_page_responsive_layout [OF assms False] by blast
  then have "js_prop (js_prop (page_fig pg) ''layout'') ''autosize'' \<noteq> JUndefined" by simp
  then show ?thesis
    by (rule js_prop_is_object [of "CHR ''a''" "''autosize''", rotated 3]) simp_all
qed

text \<open>
  C5, as stated, fails twice. An explicit height of 300.5 gives a computed height of 300:
  \<^verbatim>\<open>default_height = int(user_height)\<close> truncates. With no explicit height and a viewport
  width of 0 the computed height is 560, not the 280 of the formula, because
  \<^verbatim>\<open>window.innerWidth||1024\<close> replaces 0 by 1024; the height then falls to 280 at width 1,
  so it is not monotone from 0.
\<close>

theorem C5_heights_counterexample:
  "prepare_page fractional_fig = Inr fractional_page
   \<and> mobileHeight fractional_page 800 = 300
   \<and> computed_height_spec (Some (601 / 2)) 800 = 601 / 2
   \<and> prepare_page (layout_fig []) = Inr responsive_page
   \<and> mobileHeight responsive_page 0 = 560
   \<and> computed_height_spec None 0 = 280
   \<and> mobileHeight responsive_page 1 = 280"
  by code_simp

text \<open>
  C5 (amended): when \<^verbatim>\<open>layout.height\<close> is an explicit number \<open>h\<close> the computed height is
  \<^verbatim>\<open>int(h)\<close> (\<open>h\<close> itself when it is an integer) for every viewport width; otherwise it is the
  formula of the specification taken at the viewport width, 1024 standing in for a width
  of 0, it lies between 280 and 560, and it is monotone over the non-zero widths. Every
  call of \<^verbatim>\<open>render\<close> writes the computed height into \<^verbatim>\<open>layout.height\<close>.
\<close>

theorem C5_computed_height:
  assumes "prepare_page fig_json = Inr pg"
  shows "(page_explicitHeight pg \<longleftrightarrow>
            (\<exists>kvs layout. fig_json = PDict kvs \<and> dict_get kvs ''layout'' = PDict layout
                           \<and> is_int_or_float (dict_get layout ''height'')))
       \<and> (fig_json = PDict kvs \<and> dict_get kvs ''layout'' = PDict layout
            \<and> is_int_or_float (dict_get layout ''height'')
          \<longrightarrow> mobileHeight pg w = py_int (dict_get layout ''height''))
       \<and> (fig_json = PDict kvs \<and> dict_get kvs ''layout'' = PDict layout
            \<and> dict_get layout ''height'' = PInt h
          \<longrightarrow> mobileHeight pg w = h)
       \<and> (\<not> page_explicitHeight pg
          \<longrightarrow> of_int (mobileHeight pg w) = computed_height_spec None (if w = 0 then 1024 else w)
              \<and> 280 \<le> mobileHeight pg w \<and> mobileHeight pg w \<le> 560
              \<and> (w1 \<le> w2 \<and> w1 \<noteq> 0 \<and> w2 \<noteq> 0 \<longrightarrow> mobileHeight pg w1 \<le> mobileHeight pg w2))
       \<and> (js_prop doc ''layout'' = JObj l \<and> render fmt pg w doc = Inr doc'
          \<longrightarrow> js_prop (js_prop doc' ''layout'') ''height'' = JNum (of_int (mobileHeight pg w)))"
proof (intro conjI impI)
  show "page_explicitHeight pg \<longleftrightarrow>
            (\<exists>kvs layout. fig_json = PDict kvs \<and> dict_get kvs ''layout'' = PDict layout
                           \<and> is_int_or_float (dict_get layout ''height''))"
    using assms by (rule prepare_page_explicit_iff)
next
  assume a: "fig_json = PDict kvs \<and> dict_get kvs ''layout'' = PDict layout
            \<and> is_int_or_float (dict_get layout ''height'')"
  then have "prepare_page fig_json = Inr \<lparr> page_fig = to_js fig_json, page_explicitHeight = True,
           page_defaultHeight = py_int (dict_get layout ''height'') \<rparr>"
    using prepare_page_explicit by blast
  then show "mobileHeight pg w = py_int (dict_get layout ''height'')"
    using assms by (auto simp: mobileHeight_def)
next
  assume a: "fig_json = PDict kvs \<and> dict_get kvs ''layout'' = PDict layout
            \<and> dict_get layout ''height'' = PInt h"
  then have "prepare_page fig_json = Inr \<lparr> page_fig = to_js fig_json, page_explicitHeight = True,
           page_defaultHeight = py_int (dict_get layout ''height'') \<rparr>"
    using prepare_page_explicit [of fig_json kvs layout] by simp
  then show "mobileHeight pg w = h"
    using assms a by (auto simp: mobileHeight_def)
next
  assume "\<not> page_explicitHeight pg"
  then show "of_int (mobileHeight pg w) = computed_height_spec None (if w = 0 then 1024 else w)"
    by (rule mobileHeight_spec)
next
  assume "\<not> page_explicitHeight pg"
  then show "280 \<le> mobileHeight pg w" using mobileHeight_bounds by blast
next
  assume "\<not> page_explicitHeight pg"
  then show "mobileHeight pg w \<le> 560" using mobileHeight_bounds by blast
next
  assume "\<not> page_explicitHeight pg" "w1 \<le> w2 \<and> w1 \<noteq> 0 \<and> w2 \<noteq> 0"
  then show "mobileHeight pg w1 \<le> mobileHeight pg w2" using mobileHeight_mono by blast
next
  assume "js_prop doc ''layout'' = JObj l \<and> render fmt pg w doc = Inr doc'"
  then show "js_prop (js_prop doc' ''layout'') ''height'' = JNum (of_int (mobileHeight pg w))"
    using render_layout [of doc l fmt pg w doc'] by auto
qed


theorem C5_computed_height_witness:
  "prepare_page fixed_fig = Inr fixed_page
   \<and> page_explicitHeight fixed_page
   \<and> mobileHeight fixed_page 280 = 300 \<and> mobileHeight fixed_page 1400 = 300
   \<and> prepare_page (layout_fig []) = Inr responsive_page
   \<and> \<not> page_explicitHeight responsive_page
   \<and> of_int (mobileHeight responsive_page 500) = computed_height_spec None 500
   \<and> 280 \<le> mobileHeight responsive_page 500 \<and> mobileHeight responsive_page 500 \<le> 560
   \<and> mobileHeight responsive_page 500 \<le> mobileHeight responsive_page 900
   \<and> js_prop (page_fig responsive_page) ''layout'' = JObj [(''autosize'', JBool True)]
   \<and> render (\<lambda>q. []) responsive_page 500 (page_fig responsive_page)
       = Inr (JObj [(''data'', JArr []),
                    (''layout'', JObj [(''autosize'', JBool True), (''width'', JNull), (''height'', JNum 300)])])
   \<and> js_prop (js_prop (JObj [(''data'', JArr []),
                    (''layout'', JObj [(''autosize'', JBool True), (''width'', JNull), (''height'', JNum 300)])])
          ''layout'') ''height'' = JNum (of_int (mobileHeight responsive_page 500))"
proof -
  have a: "prepare_page fixed_fig = Inr fixed_page" by code_simp
  have a1: "fixed_fig = PDict [(''data'', PList []), (''layout'', PDict [(''height'', PInt 300), (''width'', PInt 500), (''autosize'', PBool False)])]"
    by (simp add: fixed_fig_def layout_fig_def)
  have a2: "dict_get [(''data'', PList []), (''layout'', PDict [(''height'', PInt 300), (''width'', PInt 500), (''autosize'', PBool False)])] ''layout''
            = PDict [(''height'', PInt 300), (''width'', PInt 500), (''autosize'', PBool False)]"
    by (simp add: dict_get_def)
  have a3: "dict_get [(''height'', PInt 300), (''width'', PInt 500), (''autosize'', PBool False)] ''height'' = PInt 300"
    by (simp add: dict_get_def)
  have b: "prepare_page (layout_fig []) = Inr responsive_page" by code_simp
  have b1: "\<not> page_explicitHeight responsive_page" by (simp add: responsive_page_def)
  have b2: "(500::int) \<le> 900 \<and> (500::int) \<noteq> 0 \<and> (900::int) \<noteq> 0" by simp
  have b3: "js_prop (page_fig responsive_page) ''layout'' = JObj [(''autosize'', JBool True)]"
    by (simp add: responsive_page_def)
  have b4: "render (\<lambda>q. []) responsive_page 500 (page_fig responsive_page)
       = Inr (JObj [(''data'', JArr []),
                    (''layout'', JObj [(''autosize'', JBool True), (''width'', JNull), (''height'', JNum 300)])])"
    by code_simp
  have e: "page_explicitHeight fixed_page" by (simp add: fixed_page_def)
  note A = C5_computed_height [OF a, of "[(''data'', PList []), (''layout'', PDict [(''height'', PInt 300), (''width'', PInt 500), (''autosize'', PBool False)])]"
      "[(''height'', PInt 300), (''width'', PInt 500), (''autosize'', PBool False)]" _ 300]
  have A1: "mobileHeight fixed_page 280 = 300" using A [of 280] a1 a2 a3 by blast
  have A2: "mobileHeight fixed_page 1400 = 300" using A [of 1400] a1 a2 a3 by blast
  note B = C5_computed_height [OF b, of _ _ 500 _ 500 900 "page_fig responsive_page"
      "[(''autosize'', JBool True)]" "\<lambda>q. []"
      "JObj [(''data'', JArr []),
                    (''layout'', JObj [(''autosize'', JBool True), (''width'', JNull), (''height'', JNum 300)])]"]
  have B1: "of_int (mobileHeight responsive_page 500) = computed_height_spec None 500"
    using B b1 by simp
  have B2: "280 \<le> mobileHeight responsive_page 500 \<and> mobileHeight responsive_page 500 \<le> 560"
    using B b1 by blast
  have B3: "mobileHeight responsive_page 500 \<le> mobileHeight responsive_page 900"
    using B b1 b2 by blast
  have B4: "js_prop (js_prop (JObj [(''data'', JArr []),
                    (''layout'', JObj [(''autosize'', JBool True), (''width'', JNull), (''height'', JNum 300)])])
          ''layout'') ''height'' = JNum (of_int (mobileHeight responsive_page 500))"
    using B b3 b4 by blast
  show ?thesis using a e A1 A2 b b1 B1 B2 B3 b3 b4 B4 by blast
qed

text \<open>
  C8, as stated, fails on the client side: for a document with the explicit height 300, the
  width 500 and autosize false, \<^verbatim>\<open>render\<close> sets \<^verbatim>\<open>layout.width\<close> to null and
  \<^verbatim>\<open>layout.autosize\<close> to true.
\<close>

theorem C8_render_clears_width_counterexample:
  "prepare_page fixed_fig = Inr fixed_page
   \<and> page_explicitHeight fixed_page
   \<and> js_prop (js_prop (page_fig fixed_page) ''layout'') ''width'' = JNum 500
   \<and> js_prop (js_prop (page_fig fixed_page) ''layout'') ''autosize'' = JBool False
   \<and> render (\<lambda>q. []) fixed_page 800 (page_fig fixed_page)
       = Inr (JObj [(''data'', JArr []),
                    (''layout'', JObj [(''height'', JNum 300), (''width'', JNull), (''autosize'', JBool True)])])"
  by code_simp

text \<open>
  C8 (amended): the server-side pass leaves the whole document, so its width and autosize,
  unchanged when \<^verbatim>\<open>layout.height\<close> is an explicit number, and otherwise forces autosize to
  true and removes the width; every client-side \<^verbatim>\<open>render\<close> sets autosize to true and the
  width to null, whatever the height.
\<close>

theorem C8_width_and_autosize:
  "(fig_json = PDict kvs \<and> dict_get kvs ''layout'' = PDict layout
      \<and> is_int_or_float (dict_get layout ''height'')
     \<longrightarrow> prepare_page fig_json = Inr \<lparr> page_fig = to_js fig_json, page_explicitHeight = True,
            page_defaultHeight = py_int (dict_get layout ''height'') \<rparr>)
   \<and> (prepare_page fig_json = Inr pg \<and> \<not> page_explicitHeight pg
     \<longrightarrow> js_prop (js_prop (page_fig pg) ''layout'') ''autosize'' = JBool True
         \<and> js_prop (js_prop (page_fig pg) ''layout'') ''width'' = JUndefined)
   \<and> (js_prop doc ''layout'' = JObj l \<and> render fmt pg' w doc = Inr doc'
     \<longrightarrow> js_prop (js_prop doc' ''layout'') ''autosize'' = JBool True
         \<and> js_prop (js_prop doc' ''layout'') ''width'' = JNull)"
proof (intro conjI impI)
  assume "fig_json = PDict kvs \<and> dict_get kvs ''layout'' = PDict layout
      \<and> is_int_or_float (dict_get layout ''height'')"
  then show "prepare_page fig_json = Inr \<lparr> page_fig = to_js fig_json, page_explicitHeight = True,
            page_defaultHeight = py_int (dict_get layout ''height'') \<rparr>"
    using prepare_page_explicit by blast
next
  assume "prepare_page fig_json = Inr pg \<and> \<not> page_explicitHeight pg"
  then show "js_prop (js_prop (page_fig pg) ''layout'') ''autosize'' = JBool True"
    using prepare_page_responsive_layout by blast
next
  assume "prepare_page fig_json = Inr pg \<and> \<not> page_explicitHeight pg"
  then show "js_prop (js_prop (page_fig pg) ''layout'') ''width'' = JUndefined"
    using prepare_page_responsive_layout by blast
next
  assume "js_prop doc ''layout'' = JObj l \<and> render fmt pg' w doc = Inr doc'"
  then show "js_prop (js_prop doc' ''layout'') ''autosize'' = JBool True"
    using render_layout [of doc l fmt pg' w doc'] by auto
next
  assume "js_prop doc ''layout'' = JObj l \<and> render fmt pg' w doc = Inr doc'"
  then show "js_prop (js_prop doc' ''layout'') ''width'' = JNull"
    using render_layout [of doc l fmt pg' w doc'] by auto
qed


theorem C8_width_and_autosize_witness:
  "fixed_fig = PDict [(''data'', PList []), (''layout'', PDict [(''height'', PInt 300), (''width'', PInt 500), (''autosize'', PBool False)])]
   \<and> dict_get [(''data'', PList []), (''layout'', PDict [(''height'', PInt 300), (''width'', PInt 500), (''autosize'', PBool False)])] ''layout''
       = PDict [(''height'', PInt 300), (''width'', PInt 500), (''autosize'', PBool False)]
   \<and> is_int_or_float (dict_get [(''height'', PInt 300), (''width'', PInt 500), (''autosize'', PBool False)] ''height'')
   \<and> prepare_page fixed_fig = Inr \<lparr> page_fig = to_js fixed_fig, page_explicitHeight = True,
         page_defaultHeight = py_int (dict_get [(''height'', PInt 300), (''width'', PInt 500), (''autosize'', PBool False)] ''height'') \<rparr>
   \<and> prepare_page (layout_fig [(''width'', PInt 500)]) = Inr responsive_page
   \<and> \<not> page_explicitHeight responsive_page
   \<and> js_prop (js_prop (page_fig responsive_page) ''layout'') ''autosize'' = JBool True
   \<and> js_prop (js_prop (page_fig responsive_page) ''layout'') ''width'' = JUndefined
   \<and> js_prop (page_fig fixed_page) ''layout''
       = JObj [(''height'', JNum 300), (''width'', JNum 500), (''autosize'', JBool False)]
   \<and> render (\<lambda>q. []) fixed_page 800 (page_fig fixed_page)
       = Inr (JObj [(''data'', JArr []),
                    (''layout'', JObj [(''height'', JNum 300), (''width'', JNull), (''autosize'', JBool True)])])
   \<and> js_prop (js_prop (JObj [(''data'', JArr []),
                    (''layout'', JObj [(''height'', JNum 300), (''width'', JNull), (''autosize'', JBool True)])])
         ''layout'') ''autosize'' = JBool True
   \<and> js_prop (js_prop (JObj [(''data'', JArr []),
                    (''layout'', JObj [(''height'', JNum 300), (''width'', JNull), (''autosize'', JBool True)])])
         ''layout'') ''width'' = JNull"
proof -
  let ?kvs = "[(''data'', PList []), (''layout'', PDict [(''height'', PInt 300), (''width'', PInt 500), (''autosize'', PBool False)])]"
  let ?layout = "[(''height'', PInt 300), (''width'', PInt 500), (''autosize'', PBool False)]"
  let ?doc' = "JObj [(''data'', JArr []),
                    (''layout'', JObj [(''height'', JNum 300), (''width'', JNull), (''autosize'', JBool True)])]"
  have a1: "fixed_fig = PDict ?kvs" by (simp add: fixed_fig_def layout_fig_def)
  have a2: "dict_get ?kvs ''layout'' = PDict ?layout" by (simp add: dict_get_def)
  have a3: "is_int_or_float (dict_get ?layout ''height'')" by (simp add: dict_get_def)
  have b1: "prepare_page (layout_fig [(''width'', PInt 500)]) = Inr responsive_page" by code_simp
  have b2: "\<not> page_explicitHeight responsive_page" by (simp add: responsive_page_def)
  have c1: "js_prop (page_fig fixed_page) ''layout''
       = JObj [(''height'', JNum 300), (''width'', JNum 500), (''autosize'', JBool False)]"
    by code_simp
  have c2: "render (\<lambda>q. []) fixed_page 800 (page_fig fixed_page) = Inr ?doc'" by code_simp
  note T = C8_width_and_autosize [of fixed_fig ?kvs ?layout]
  have A: "prepare_page fixed_fig = Inr \<lparr> page_fig = to_js fixed_fig, page_explicitHeight = True,
         page_defaultHeight = py_int (dict_get ?layout ''height'') \<rparr>"
    using T a1 a2 a3 by blast
  note U = C8_width_and_autosize [of "layout_fig [(''width'', PInt 500)]" _ _ responsive_page]
  have B: "js_prop (js_prop (page_fig responsive_page) ''layout'') ''autosize'' = JBool True
         \<and> js_prop (js_prop (page_fig responsive_page) ''layout'') ''width'' = JUndefined"
    using U b1 b2 by blast
  note V = C8_width_and_autosize [of _ _ _ _ "page_fig fixed_page"
      "[(''height'', JNum 300), (''width'', JNum 500), (''autosize'', JBool False)]"
      "\<lambda>q. []" fixed_page 800 ?doc']
  have C: "js_prop (js_prop ?doc' ''layout'') ''autosize'' = JBool True
         \<and> js_prop (js_prop ?doc' ''layout'') ''width'' = JNull"
    using V c1 c2 by blast
  show ?thesis using a1 a2 a3 A b1 b2 B c1 c2 C by blast
qed

section \<open>Properties of the render entry point and the query gate\<close>

lemma bind_contained:
  "contained r \<Longrightarrow> (\<And>x. r = Returned x \<Longrightarrow> \<exists>y. f x = Returned y \<or> (\<exists>m. f x = Raised m))
   \<Longrightarrow> (\<exists>y. bind_outcome r f = Returned y) \<or> (\<exists>m. bind_outcome r f = Raised m)"
  by (cases r) auto





lemma render_after_exec:
  assumes "deps_present e" "run_query runner sql_query = Returned df"
    and "exec_fig e plotly_python df = Returned fv"
  shows "render_plotly_chart_py e runner sql_query plotly_python
         = except_Exception (after_exec e fv)
             (\<lambda>m. Returned (ErrorText (''Error in render_plotly_chart_py: '' @ m)))"
  using assms by (simp add: render_plotly_chart_py_def render_body_def)





lemma fig_required_text: "fig_required = ''Error: Plotly code must define a `fig` variable.''"
  by (simp add: fig_required_def)




text \<open>
  C10: when the snippet binds \<^verbatim>\<open>fig\<close> to a value without a \<^verbatim>\<open>to_plotly_json\<close> attribute,
  the function returns the same literal message as for a snippet that never assigns
  \<^verbatim>\<open>fig\<close>.
\<close>

theorem C10_fig_without_serializer:
  "deps_present e \<and> run_query runner sql_query = Returned df
     \<and> exec_fig e code df = Returned (Plain v) \<and> exec_fig e code0 df = Returned Unbound
   \<longrightarrow> render_plotly_chart_py e runner sql_query code
         = Returned (ErrorText ''Error: Plotly code must define a `fig` variable.'')
       \<and> render_plotly_chart_py e runner sql_query code
         = render_plotly_chart_py e runner sql_query code0"
proof
  assume a: "deps_present e \<and> run_query runner sql_query = Returned df
     \<and> exec_fig e code df = Returned (Plain v) \<and> exec_fig e code0 df = Returned Unbound"
  have 1: "render_plotly_chart_py e runner sql_query code
         = except_Exception (after_exec e (Plain v))
             (\<lambda>m. Returned (ErrorText (''Error in render_plotly_chart_py: '' @ m)))"
    using a render_after_exec by blast
  have 2: "render_plotly_chart_py e runner sql_query code0
         = except_Exception (after_exec e Unbound)
             (\<lambda>m. Returned (ErrorText (''Error in render_plotly_chart_py: '' @ m)))"
    using a render_after_exec by blast
  show "render_plotly_chart_py e runner sql_query code
         = Returned (ErrorText ''Error: Plotly code must define a `fig` variable.'')
       \<and> render_plotly_chart_py e runner sql_query code
         = render_plotly_chart_py e runner sql_query code0"
    unfolding 1 2 by (simp add: after_exec_def fig_required_def)
qed

theorem C10_fig_without_serializer_witness:
  "deps_present example_env \<and> run_query None None = (Returned None :: unit option outcome)
   \<and> exec_fig example_env ''fig = 5'' None = Returned (Plain (PInt 5))
   \<and> exec_fig example_env ''pass'' None = Returned Unbound
   \<and> render_plotly_chart_py example_env None None ''fig = 5''
       = Returned (ErrorText ''Error: Plotly code must define a `fig` variable.'')
   \<and> render_plotly_chart_py example_env None None ''fig = 5''
       = render_plotly_chart_py example_env None None ''pass''"
proof -
  have h1: "deps_present example_env" by code_simp
  have h2: "run_query None None = (Returned None :: unit option outcome)" by (simp add: run_query_def)
  have h3: "exec_fig example_env ''fig = 5'' None = Returned (Plain (PInt 5))" by code_simp
  have h4: "exec_fig example_env ''pass'' None = Returned Unbound" by code_simp
  show ?thesis
    using C10_fig_without_serializer [of example_env None None None "''fig = 5''" "PInt 5" "''pass''"]
      h1 h2 h3 h4 by blast
qed








end
